theory Spec2Isabelle
  imports Complex_Main "HOL-Library.AList" "HOL-Library.Multiset"
begin

section \<open>Constants of the launcher\<close>

text \<open>
  Every module imports its numeric and string constants from \<^verbatim>\<open>constants.py\<close>, which is
  not among the source files. The constants the modelled code reads are therefore the
  fields of a record that every function takes as its first argument.
\<close>

record constants =
  SCREEN_WIDTH :: int
  SCREEN_HEIGHT :: int
  GAME_TITLES :: "string list"
  SNAKE_GRID_SIZE :: int
  BALL_SPEED_X :: real
  BALL_SPEED_Y :: real
  PADDLE_WIDTH_BREAKOUT :: int
  BRICK_HEIGHT :: int
  BRICK_ROWS :: int
  BRICK_COLS :: int
  PLAYER_SPEED :: real
  GRAVITY :: real
  PIPE_FREQUENCY :: int
  ENEMY_FREQUENCY :: int

text \<open>What stops a modelled call short of its normal return.\<close>

datatype abort =
  IndexError      \<comment> \<open>Python's exception on \<^verbatim>\<open>xs[0]\<close> of an empty list\<close>
| TypeError       \<comment> \<open>pygame's exception on a \<^verbatim>\<open>Sound\<close> built from something that is no sound source\<close>
| NoMoreDraws     \<comment> \<open>the supplied random draws ran out while a retry loop was still spinning\<close>

section \<open>Score store (\<^verbatim>\<open>leaderboard.py\<close>)\<close>

text \<open>
  The JSON document is a dictionary from game title to a list of integer scores. A Python
  dictionary keeps insertion order and has unique keys, so it is an association list that
  is only ever changed through \<^const>\<open>AList.update\<close> (replace in place, or append a new key).
  The file \<^verbatim>\<open>leaderboard.json\<close> is absent, present but rejected by the JSON parser, or
  present with such a document.
\<close>

type_synonym leaderboard = "(string \<times> int list) list"

datatype score_file = Missing | Corrupt | Stored leaderboard

text \<open>\<^verbatim>\<open>{game: [] for game in GAME_TITLES}\<close>\<close>

definition empty_leaderboard :: "constants \<Rightarrow> leaderboard" where
  "empty_leaderboard K = foldl (\<lambda>d game. AList.update game [] d) [] (GAME_TITLES K)"

text \<open>\<^verbatim>\<open>init_leaderboard\<close>: writes the empty document only if no file exists.\<close>

definition init_leaderboard :: "constants \<Rightarrow> score_file \<Rightarrow> score_file" where
  "init_leaderboard K f = (if f = Missing then Stored (empty_leaderboard K) else f)"

text \<open>
  \<^verbatim>\<open>load_leaderboard\<close>: the parsed document, or, when opening raises
  \<^verbatim>\<open>FileNotFoundError\<close> or parsing raises \<^verbatim>\<open>JSONDecodeError\<close>, a call of
  \<^verbatim>\<open>init_leaderboard\<close> followed by the empty mapping. The result is the returned
  dictionary together with the file as the call leaves it.
\<close>

definition load_leaderboard :: "constants \<Rightarrow> score_file \<Rightarrow> leaderboard \<times> score_file" where
  "load_leaderboard K f =
     (case f of
        Stored d \<Rightarrow> (d, f)
      | _ \<Rightarrow> (empty_leaderboard K, init_leaderboard K f))"

text \<open>\<^verbatim>\<open>sorted(xs, reverse=True)[:5]\<close>\<close>

definition top5 :: "int list \<Rightarrow> int list" where
  "top5 xs = take 5 (rev (sort xs))"

text \<open>
  \<^verbatim>\<open>add_score\<close>: load, append and truncate (or create the entry), then write the whole
  document back. On a document of integer lists nothing in the \<^verbatim>\<open>try\<close> block raises,
  so the call returns \<^verbatim>\<open>True\<close>.
\<close>

definition add_score :: "constants \<Rightarrow> string \<Rightarrow> int \<Rightarrow> score_file \<Rightarrow> bool \<times> score_file" where
  "add_score K game_name sc f =
     (let (lb, f1) = load_leaderboard K f;
          lb' = (case map_of lb game_name of
                   Some xs \<Rightarrow> AList.update game_name (top5 (xs @ [sc])) lb
                 | None \<Rightarrow> AList.update game_name [sc] lb)
      in (True, Stored lb'))"

text \<open>\<^verbatim>\<open>max(scores)\<close> on a non-empty list.\<close>

definition py_max :: "int list \<Rightarrow> int" where
  "py_max xs = fold max (tl xs) (hd xs)"

text \<open>\<^verbatim>\<open>get_high_score\<close>: the best stored score of a title, 0 when there is none.\<close>

definition get_high_score :: "constants \<Rightarrow> string \<Rightarrow> score_file \<Rightarrow> int \<times> score_file" where
  "get_high_score K game_name f =
     (let (lb, f1) = load_leaderboard K f;
          scores = (case map_of lb game_name of Some xs \<Rightarrow> xs | None \<Rightarrow> [])
      in (if scores \<noteq> [] then py_max scores else 0, f1))"

text \<open>The scores a file holds for a title, as a reload reads them.\<close>

definition stored_scores :: "constants \<Rightarrow> string \<Rightarrow> score_file \<Rightarrow> int list" where
  "stored_scores K game_name f =
     (case map_of (fst (load_leaderboard K f)) game_name of Some xs \<Rightarrow> xs | None \<Rightarrow> [])"

section \<open>Snake (\<^verbatim>\<open>games/snake/snake_game.py\<close>)\<close>

record snake =
  snake_length :: int
  positions :: "(int \<times> int) list"
  direction :: "int \<times> int"
  score :: int
  grow_to :: int
  dead :: bool

text \<open>\<^verbatim>\<open>Snake.update\<close>: one cell forward on the torus; running into a body cell is fatal.\<close>

definition snake_update :: "constants \<Rightarrow> snake \<Rightarrow> abort + snake" where
  "snake_update K s =
     (if dead s then Inr s
      else case positions s of
        [] \<Rightarrow> Inl IndexError
      | head # _ \<Rightarrow>
          (let (dx, dy) = direction s;
               new_head = ((fst head + dx * SNAKE_GRID_SIZE K) mod SCREEN_WIDTH K,
                           (snd head + dy * SNAKE_GRID_SIZE K) mod SCREEN_HEIGHT K)
           in if new_head \<in> set (positions s) then Inr (s\<lparr>dead := True\<rparr>)
              else (let ps = new_head # positions s
                    in Inr (s\<lparr>positions :=
                               (if int (length ps) > grow_to s then butlast ps else ps)\<rparr>))))"

text \<open>\<^verbatim>\<open>Snake.change_direction\<close>\<close>

definition change_direction :: "int \<times> int \<Rightarrow> snake \<Rightarrow> snake" where
  "change_direction d s =
     (let (dx, dy) = d
      in if (dx, dy) \<noteq> (- fst (direction s), - snd (direction s))
         then s\<lparr>direction := (dx, dy)\<rparr> else s)"

text \<open>\<^verbatim>\<open>Snake.grow\<close>\<close>

definition grow :: "snake \<Rightarrow> snake" where
  "grow s = s\<lparr>grow_to := grow_to s + 1, score := score s + 10\<rparr>"

text \<open>
  \<^verbatim>\<open>food.reset()\<close> followed by \<^verbatim>\<open>while food.position in snake.positions: food.reset()\<close>.
  Each reset consumes one random cell from the supplied draws.
\<close>

fun food_respawn :: "(int \<times> int) list \<Rightarrow> (int \<times> int) list \<Rightarrow> abort + (int \<times> int)" where
  "food_respawn [] ps = Inl NoMoreDraws"
| "food_respawn (d # ds) ps = (if d \<in> set ps then food_respawn ds ps else Inr d)"

record snake_session =
  sn_snake :: snake
  sn_food :: "int \<times> int"
  sn_game_active :: bool
  sn_game_over :: bool
  sn_paused :: bool
  sn_high_score :: int
  sn_file :: score_file

text \<open>
  The movement step of \<^verbatim>\<open>run_snake_game\<close>, taken when the session is active, not paused
  and the movement delay has elapsed: update the snake, end the session if it died, then
  let it eat.
\<close>

definition snake_step :: "constants \<Rightarrow> (int \<times> int) list \<Rightarrow> snake_session \<Rightarrow> abort + snake_session" where
  "snake_step K draws g =
     (case snake_update K (sn_snake g) of
        Inl e \<Rightarrow> Inl e
      | Inr s1 \<Rightarrow>
          (let g1 = g\<lparr>sn_snake := s1\<rparr>;
               g2 = (if dead s1
                     then g1\<lparr>sn_game_active := False, sn_game_over := True,
                             sn_file := snd (add_score K ''Snake'' (score s1) (sn_file g1))\<rparr>
                     else g1)
           in case positions s1 of
                [] \<Rightarrow> Inl IndexError
              | head # _ \<Rightarrow>
                  if head = sn_food g2
                  then (case food_respawn draws (positions s1) of
                          Inl e \<Rightarrow> Inl e
                        | Inr p \<Rightarrow> Inr (g2\<lparr>sn_snake := grow s1, sn_food := p\<rparr>))
                  else Inr g2))"

section \<open>Rectangles (\<^verbatim>\<open>pygame.Rect\<close>)\<close>

text \<open>
  The games keep every position in a \<^verbatim>\<open>pygame.Rect\<close>: four integers, with the derived
  edges and centre of the library. Two rectangles collide when they overlap strictly
  (touching edges do not collide, and a rectangle of zero width or height collides with
  nothing). Storing a float into a coordinate rounds it to the nearest integer, a half
  going away from zero (pygame 2.3 and later; earlier releases drop the fraction).
\<close>

record rect =
  rect_x :: int
  rect_y :: int
  rect_w :: int
  rect_h :: int

definition rect_left :: "rect \<Rightarrow> int" where "rect_left r = rect_x r"
definition rect_right :: "rect \<Rightarrow> int" where "rect_right r = rect_x r + rect_w r"
definition rect_top :: "rect \<Rightarrow> int" where "rect_top r = rect_y r"
definition rect_bottom :: "rect \<Rightarrow> int" where "rect_bottom r = rect_y r + rect_h r"
definition rect_centerx :: "rect \<Rightarrow> int" where "rect_centerx r = rect_x r + rect_w r div 2"
definition rect_centery :: "rect \<Rightarrow> int" where "rect_centery r = rect_y r + rect_h r div 2"

definition set_left :: "int \<Rightarrow> rect \<Rightarrow> rect" where "set_left v r = r\<lparr>rect_x := v\<rparr>"
definition set_right :: "int \<Rightarrow> rect \<Rightarrow> rect" where "set_right v r = r\<lparr>rect_x := v - rect_w r\<rparr>"
definition set_bottom :: "int \<Rightarrow> rect \<Rightarrow> rect" where "set_bottom v r = r\<lparr>rect_y := v - rect_h r\<rparr>"
definition set_centerx :: "int \<Rightarrow> rect \<Rightarrow> rect" where
  "set_centerx v r = r\<lparr>rect_x := v - rect_w r div 2\<rparr>"
definition set_top :: "int \<Rightarrow> rect \<Rightarrow> rect" where "set_top v r = r\<lparr>rect_y := v\<rparr>"

definition colliderect :: "rect \<Rightarrow> rect \<Rightarrow> bool" where
  "colliderect a b =
     (rect_w a \<noteq> 0 \<and> rect_h a \<noteq> 0 \<and> rect_w b \<noteq> 0 \<and> rect_h b \<noteq> 0
      \<and> min (rect_x a) (rect_x a + rect_w a) < max (rect_x b) (rect_x b + rect_w b)
      \<and> min (rect_y a) (rect_y a + rect_h a) < max (rect_y b) (rect_y b + rect_h b)
      \<and> max (rect_x a) (rect_x a + rect_w a) > min (rect_x b) (rect_x b + rect_w b)
      \<and> max (rect_y a) (rect_y a + rect_h a) > min (rect_y b) (rect_y b + rect_h b))"

definition coord_of :: "real \<Rightarrow> int" where
  "coord_of v = (if 0 \<le> v then \<lfloor>v + 1 / 2\<rfloor> else \<lceil>v - 1 / 2\<rceil>)"

section \<open>Breakout (\<^verbatim>\<open>games/breakout/breakout_game.py\<close>)\<close>

text \<open>
  Velocities are Python floats; they are modelled as reals, so rounding is left out.
\<close>

record brick =
  brick_rect :: rect
  brick_color :: "int list"
  brick_points :: int
  strength :: int
  original_strength :: int

text \<open>\<^verbatim>\<open>Brick.hit\<close>: the returned pair \<^verbatim>\<open>(strength <= 0, points)\<close> and the brick after the hit.\<close>

definition hit :: "brick \<Rightarrow> (bool \<times> int) \<times> brick" where
  "hit b =
     (let b1 = b\<lparr>strength := strength b - 1\<rparr>;
          b2 = (if original_strength b1 > 1
                then b1\<lparr>brick_color := map (\<lambda>c. max (c - 40) 0) (brick_color b1)\<rparr>
                else b1)
      in ((strength b2 \<le> 0, brick_points b2), b2))"

record bk_paddle =
  paddle_width :: int
  paddle_height :: int
  paddle_rect :: rect
  paddle_speed :: int

text \<open>\<^verbatim>\<open>Paddle.update\<close>: follow the mouse or the arrow keys, then clip to the screen.\<close>

definition paddle_update :: "constants \<Rightarrow> int \<Rightarrow> bool \<Rightarrow> bool \<Rightarrow> bool \<Rightarrow> bk_paddle \<Rightarrow> bk_paddle" where
  "paddle_update K mouse_x key_left key_right mouse_control p =
     (let r0 = paddle_rect p;
          r1 = (if mouse_control then set_centerx mouse_x r0
                else (let ra = (if key_left then r0\<lparr>rect_x := rect_x r0 - paddle_speed p\<rparr> else r0)
                      in if key_right then ra\<lparr>rect_x := rect_x ra + paddle_speed p\<rparr> else ra));
          r2 = (if rect_left r1 < 0 then set_left 0 r1 else r1);
          r3 = (if rect_right r2 > SCREEN_WIDTH K then set_right (SCREEN_WIDTH K) r2 else r2)
      in p\<lparr>paddle_rect := r3\<rparr>)"

record ball =
  ball_rect :: rect
  radius :: int
  ball_dx :: real
  ball_dy :: real
  speed_increase :: real
  max_speed :: real
  attached :: bool

text \<open>The phases of \<^verbatim>\<open>Ball.update\<close> for a ball in flight, in source order.\<close>

definition move_ball :: "ball \<Rightarrow> ball" where
  "move_ball b =
     b\<lparr>ball_rect := (ball_rect b)
          \<lparr>rect_x := coord_of (real_of_int (rect_x (ball_rect b)) + ball_dx b),
           rect_y := coord_of (real_of_int (rect_y (ball_rect b)) + ball_dy b)\<rparr>\<rparr>"

text \<open>Wall collisions; \<open>u1\<close> and \<open>u2\<close> are the two draws of \<^verbatim>\<open>random.uniform(-0.3, 0.3)\<close>.\<close>

definition wall_bounce :: "constants \<Rightarrow> real \<Rightarrow> real \<Rightarrow> ball \<Rightarrow> ball" where
  "wall_bounce K u1 u2 b =
     (let b1 = (if rect_left (ball_rect b) \<le> 0 \<or> rect_right (ball_rect b) \<ge> SCREEN_WIDTH K
                then b\<lparr>ball_dx := - ball_dx b, ball_dy := ball_dy b + u1\<rparr> else b)
      in if rect_top (ball_rect b1) \<le> 0
         then b1\<lparr>ball_dy := - ball_dy b1, ball_dx := ball_dx b1 + u2\<rparr> else b1)"

definition paddle_bounce :: "bk_paddle \<Rightarrow> ball \<Rightarrow> ball" where
  "paddle_bounce p b =
     (if colliderect (ball_rect b) (paddle_rect p) \<and> ball_dy b > 0
      then (let relative_x =
                  real_of_int (rect_centerx (ball_rect b) - rect_centerx (paddle_rect p))
                    / (real_of_int (rect_w (paddle_rect p)) / 2);
                b1 = b\<lparr>ball_dx := relative_x * 7, ball_dy := - \<bar>ball_dy b\<bar>\<rparr>
            in if \<bar>ball_dy b1\<bar> < 3 then b1\<lparr>ball_dy := - 3\<rparr> else b1)
      else b)"

definition limit_speed :: "ball \<Rightarrow> ball" where
  "limit_speed b =
     b\<lparr>ball_dx := max (min (ball_dx b) (max_speed b)) (- max_speed b),
       ball_dy := max (min (ball_dy b) (max_speed b)) (- max_speed b)\<rparr>"

text \<open>
  The scan of the brick loop: the first brick in list order that the ball overlaps is
  hit, and the loop stops there. The result is the brick after the hit, whether it broke,
  the points \<^verbatim>\<open>hit\<close> returned, and the live list (the brick removed if it broke).
\<close>

fun brick_scan :: "rect \<Rightarrow> brick list \<Rightarrow> (brick \<times> bool \<times> int \<times> brick list) option" where
  "brick_scan r [] = None"
| "brick_scan r (b # bs) =
     (if colliderect r (brick_rect b)
      then (let ((broken, pts), b') = hit b
            in Some (b', broken, pts, if broken then bs else b' # bs))
      else (case brick_scan r bs of
              None \<Rightarrow> None
            | Some (b', broken, pts, bs') \<Rightarrow> Some (b', broken, pts, b # bs')))"

text \<open>
  The brick loop with its response: returns the ball, the live bricks, the score change
  and the list of broken bricks.
\<close>

definition brick_collisions :: "int \<Rightarrow> int \<Rightarrow> ball \<Rightarrow> brick list \<Rightarrow> ball \<times> brick list \<times> int \<times> brick list" where
  "brick_collisions prev_x prev_y b bricks =
     (case brick_scan (ball_rect b) bricks of
        None \<Rightarrow> (b, bricks, 0, [])
      | Some (bk, broken, pts, bricks') \<Rightarrow>
          (let dx_entry = (if ball_dx b > 0
                           then rect_left (brick_rect bk) - (prev_x + rect_w (ball_rect b))
                           else prev_x - rect_right (brick_rect bk));
               dy_entry = (if ball_dy b > 0
                           then rect_top (brick_rect bk) - (prev_y + rect_h (ball_rect b))
                           else prev_y - rect_bottom (brick_rect bk));
               b' = (if \<bar>dx_entry\<bar> < \<bar>dy_entry\<bar> then b\<lparr>ball_dx := - ball_dx b\<rparr>
                     else b\<lparr>ball_dy := - ball_dy b\<rparr>)
           in (b', bricks', if broken then pts else 0, if broken then [bk] else [])))"

definition speed_up :: "ball \<Rightarrow> ball" where
  "speed_up b =
     b\<lparr>ball_dx := ball_dx b * (1 + speed_increase b / 100),
       ball_dy := ball_dy b * (1 + speed_increase b / 100)\<rparr>"

text \<open>
  \<^verbatim>\<open>Ball.update\<close>: returns \<^verbatim>\<open>(score_change, broken_bricks)\<close> with the ball and the live
  bricks as the call leaves them.
\<close>

definition ball_update :: "constants \<Rightarrow> real \<Rightarrow> real \<Rightarrow> bk_paddle \<Rightarrow> ball \<Rightarrow> brick list
    \<Rightarrow> (int \<times> brick list) \<times> ball \<times> brick list" where
  "ball_update K u1 u2 p b bricks =
     (if attached b
      then ((0, []),
            b\<lparr>ball_rect := set_bottom (rect_top (paddle_rect p))
                 (set_centerx (rect_centerx (paddle_rect p)) (ball_rect b))\<rparr>,
            bricks)
      else (let prev_x = rect_x (ball_rect b);
                prev_y = rect_y (ball_rect b);
                b1 = limit_speed (paddle_bounce p (wall_bounce K u1 u2 (move_ball b)));
                (b2, bricks', score_change, broken_bricks) = brick_collisions prev_x prev_y b1 bricks
            in ((score_change, broken_bricks), speed_up b2, bricks')))"

text \<open>\<^verbatim>\<open>Ball.reset\<close>; \<open>c\<close> is the draw of \<^verbatim>\<open>random.choice([-1, 1])\<close>.\<close>

definition ball_reset :: "int \<Rightarrow> bk_paddle \<Rightarrow> ball \<Rightarrow> ball" where
  "ball_reset c p b =
     b\<lparr>ball_rect := set_bottom (rect_top (paddle_rect p))
          (set_centerx (rect_centerx (paddle_rect p)) (ball_rect b)),
       ball_dx := real_of_int c * 5, ball_dy := - 5, attached := True\<rparr>"

datatype powerup_type = Expand | Shrink | ExtraLife | MultiBall

record powerup =
  pu_rect :: rect
  pu_type :: powerup_type
  pu_dy :: int

definition new_powerup :: "int \<Rightarrow> int \<Rightarrow> powerup_type \<Rightarrow> powerup" where
  "new_powerup x y t = \<lparr>pu_rect = \<lparr>rect_x = x, rect_y = y, rect_w = 30, rect_h = 15\<rparr>,
                         pu_type = t, pu_dy = 3\<rparr>"

text \<open>\<^verbatim>\<open>PowerUp.update\<close>: the moved power-up; it is off screen when its top is below the screen.\<close>

definition powerup_update :: "powerup \<Rightarrow> powerup" where
  "powerup_update q = q\<lparr>pu_rect := (pu_rect q)\<lparr>rect_y := rect_y (pu_rect q) + pu_dy q\<rparr>\<rparr>"

text \<open>
  \<^verbatim>\<open>create_bricks\<close>; the colour table derived from the theme is an argument.
\<close>

definition create_bricks :: "constants \<Rightarrow> int list list \<Rightarrow> brick list" where
  "create_bricks K colors =
     (let brick_spacing_x = 5; brick_spacing_y = 5;
          usable_width = SCREEN_WIDTH K - brick_spacing_x * (BRICK_COLS K + 1);
          brick_width = usable_width div BRICK_COLS K
      in concat (map (\<lambda>row.
           map (\<lambda>col.
             \<lparr>brick_rect = \<lparr>rect_x = brick_spacing_x + int col * (brick_width + brick_spacing_x),
                            rect_y = 50 + int row * (BRICK_HEIGHT K + brick_spacing_y),
                            rect_w = brick_width, rect_h = BRICK_HEIGHT K\<rparr>,
              brick_color = colors ! (row mod length colors),
              brick_points = (BRICK_ROWS K - int row) * 10,
              strength = (if row < 2 then 2 else 1),
              original_strength = (if row < 2 then 2 else 1)\<rparr>)
             [0 ..< nat (BRICK_COLS K)])
           [0 ..< nat (BRICK_ROWS K)]))"

text \<open>
  The power-up loop of \<^verbatim>\<open>run_breakout_game\<close>: each power-up falls; one that leaves the
  screen is dropped, one that reaches the paddle is applied and dropped. The state threaded
  through is the paddle and the lives counter.
\<close>

definition apply_powerup :: "powerup_type \<Rightarrow> bk_paddle \<times> int \<Rightarrow> bk_paddle \<times> int" where
  "apply_powerup t st =
     (let (p, lives) = st
      in case t of
           Expand \<Rightarrow>
             (let w = min (paddle_width p + 20) 200;
                  r = (paddle_rect p)\<lparr>rect_w := w\<rparr>
              in (p\<lparr>paddle_width := w, paddle_rect := set_centerx (rect_centerx r) r\<rparr>, lives))
         | Shrink \<Rightarrow>
             (let w = max (paddle_width p - 20) 40;
                  r = (paddle_rect p)\<lparr>rect_w := w\<rparr>
              in (p\<lparr>paddle_width := w, paddle_rect := set_centerx (rect_centerx r) r\<rparr>, lives))
         | ExtraLife \<Rightarrow> (p, lives + 1)
         | MultiBall \<Rightarrow> (p, lives))"

fun powerups_loop :: "constants \<Rightarrow> powerup list \<Rightarrow> bk_paddle \<times> int \<Rightarrow> powerup list \<times> bk_paddle \<times> int" where
  "powerups_loop K [] st = ([], st)"
| "powerups_loop K (q # qs) st =
     (let q' = powerup_update q
      in if rect_top (pu_rect q') > SCREEN_HEIGHT K then powerups_loop K qs st
         else if colliderect (pu_rect q') (paddle_rect (fst st))
         then powerups_loop K qs (apply_powerup (pu_type q') st)
         else (let (rest, st') = powerups_loop K qs st in (q' # rest, st')))"

text \<open>
  The power-ups that one pass of that loop applies: those that, after their move, are still
  on the screen and overlap the paddle as it is at their turn (an applied power-up may
  resize the paddle for the ones after it).
\<close>

fun caught_powerups :: "constants \<Rightarrow> powerup list \<Rightarrow> bk_paddle \<Rightarrow> powerup list" where
  "caught_powerups K [] pad = []"
| "caught_powerups K (q # qs) pad =
     (let q' = powerup_update q
      in if rect_top (pu_rect q') > SCREEN_HEIGHT K then caught_powerups K qs pad
         else if colliderect (pu_rect q') (paddle_rect pad)
         then q' # caught_powerups K qs (fst (apply_powerup (pu_type q') (pad, 0)))
         else caught_powerups K qs pad)"

record breakout_session =
  bk_pad :: bk_paddle
  bk_ball :: ball
  bk_bricks :: "brick list"
  bk_powerups :: "powerup list"
  bk_game_active :: bool
  bk_game_over :: bool
  bk_paused :: bool
  bk_score :: int
  bk_lives :: int
  bk_level :: int
  bk_mouse_control :: bool
  bk_high_score :: int
  bk_file :: score_file

text \<open>What one frame reads from the outside: the devices and the random draws.\<close>

record breakout_input =
  in_mouse_x :: int
  in_key_left :: bool
  in_key_right :: bool
  in_wall_u1 :: real
  in_wall_u2 :: real
  in_spawn_roll :: real
  in_spawn_type :: powerup_type
  in_lost_dir :: int
  in_level_dir :: int
  in_colors :: "int list list"

text \<open>
  The steps of the main loop for an active, unpaused session (\<^verbatim>\<open>if not paused:\<close> under
  \<^verbatim>\<open>elif game_active:\<close>), in source order. First the power-ups spawned by the broken
  bricks: each broken brick spawns one when the roll is below 0.15 (an update breaks at
  most one brick, so one roll and one type draw are supplied).
\<close>

definition spawn_powerups :: "real \<Rightarrow> powerup_type \<Rightarrow> brick list \<Rightarrow> powerup list" where
  "spawn_powerups roll t broken_bricks =
     concat (map (\<lambda>bk. if roll < 0.15
                        then [new_powerup (rect_centerx (brick_rect bk)) (rect_centery (brick_rect bk)) t]
                        else []) broken_bricks)"

text \<open>
  \<^verbatim>\<open>if ball.rect.top > SCREEN_HEIGHT:\<close> a lost ball costs a life; with no life left the
  session is over and the score is recorded if it beats the high score read at start,
  otherwise the ball is reset.
\<close>

definition lose_ball :: "constants \<Rightarrow> int \<Rightarrow> breakout_session \<Rightarrow> breakout_session" where
  "lose_ball K c g =
     (if rect_top (ball_rect (bk_ball g)) > SCREEN_HEIGHT K
      then (let lives' = bk_lives g - 1
            in if lives' \<le> 0
               then g\<lparr>bk_lives := lives', bk_game_active := False, bk_game_over := True,
                       bk_file := (if bk_score g > bk_high_score g
                                   then snd (add_score K ''Breakout'' (bk_score g) (bk_file g))
                                   else bk_file g)\<rparr>
               else g\<lparr>bk_lives := lives', bk_ball := ball_reset c (bk_pad g) (bk_ball g)\<rparr>)
      else g)"

text \<open>\<^verbatim>\<open>if not bricks:\<close> the next level, with a faster ball, a fresh layout and a bonus.\<close>

definition complete_level :: "constants \<Rightarrow> int \<Rightarrow> int list list \<Rightarrow> breakout_session \<Rightarrow> breakout_session" where
  "complete_level K c colors g =
     (if bk_bricks g = []
      then (let level' = bk_level g + 1;
                ball' = ball_reset c (bk_pad g) (bk_ball g)
            in g\<lparr>bk_level := level',
                   bk_ball := ball'\<lparr>max_speed := max_speed ball' + 1\<rparr>,
                   bk_bricks := create_bricks K colors,
                   bk_pad := (bk_pad g)\<lparr>paddle_width := PADDLE_WIDTH_BREAKOUT K,
                                paddle_rect := (paddle_rect (bk_pad g))\<lparr>rect_w := PADDLE_WIDTH_BREAKOUT K\<rparr>\<rparr>,
                   bk_score := bk_score g + level' * 100\<rparr>)
      else g)"

definition breakout_tick :: "constants \<Rightarrow> breakout_input \<Rightarrow> breakout_session \<Rightarrow> breakout_session" where
  "breakout_tick K i g =
     (let pad1 = paddle_update K (in_mouse_x i) (in_key_left i) (in_key_right i)
                   (bk_mouse_control g) (bk_pad g);
          ((pts, broken_bricks), ball1, bricks1) =
             ball_update K (in_wall_u1 i) (in_wall_u2 i) pad1 (bk_ball g) (bk_bricks g);
          spawned = spawn_powerups (in_spawn_roll i) (in_spawn_type i) broken_bricks;
          (powerups2, pad2, lives2) = powerups_loop K (bk_powerups g @ spawned) (pad1, bk_lives g)
      in complete_level K (in_level_dir i) (in_colors i)
           (lose_ball K (in_lost_dir i)
              (g\<lparr>bk_pad := pad2, bk_ball := ball1, bk_bricks := bricks1, bk_powerups := powerups2,
                  bk_score := bk_score g + pts, bk_lives := lives2\<rparr>)))"

section \<open>Space shooter (\<^verbatim>\<open>games/shooter/shooter_game.py\<close>)\<close>

text \<open>
  Explosions and stars are drawn but never read by the simulation; they are left out.
  Clock readings (\<^verbatim>\<open>pygame.time.get_ticks()\<close>) are inputs.
\<close>

record player =
  pl_rect :: rect
  pl_speed :: real
  shoot_cooldown :: int
  cooldown_time :: int
  lives :: int
  invulnerable :: bool
  invulnerable_timer :: int
  invulnerable_duration :: int

text \<open>\<^verbatim>\<open>Player.update\<close>; \<open>now\<close> is the clock reading of the invulnerability check.\<close>

definition player_update :: "constants \<Rightarrow> bool \<Rightarrow> bool \<Rightarrow> int \<Rightarrow> player \<Rightarrow> player" where
  "player_update K go_left go_right now pl =
     (let r0 = pl_rect pl;
          r1 = (if go_left then r0\<lparr>rect_x := coord_of (real_of_int (rect_x r0) - pl_speed pl)\<rparr> else r0);
          r2 = (if go_right then r1\<lparr>rect_x := coord_of (real_of_int (rect_x r1) + pl_speed pl)\<rparr> else r1);
          r3 = (if rect_left r2 < 0 then set_left 0 r2 else r2);
          r4 = (if rect_right r3 > SCREEN_WIDTH K then set_right (SCREEN_WIDTH K) r3 else r3);
          pl1 = pl\<lparr>pl_rect := r4\<rparr>;
          pl2 = (if shoot_cooldown pl1 > 0 then pl1\<lparr>shoot_cooldown := shoot_cooldown pl1 - 1\<rparr> else pl1)
      in if invulnerable pl2 \<and> now - invulnerable_timer pl2 > invulnerable_duration pl2
         then pl2\<lparr>invulnerable := False\<rparr> else pl2)"

text \<open>\<^verbatim>\<open>Player.get_hit\<close>: the returned flag and the player after the call.\<close>

definition get_hit :: "int \<Rightarrow> player \<Rightarrow> bool \<times> player" where
  "get_hit now pl =
     (if \<not> invulnerable pl
      then (True, pl\<lparr>lives := lives pl - 1, invulnerable := True, invulnerable_timer := now\<rparr>)
      else (False, pl))"

record bullet =
  bullet_rect :: rect
  bullet_speed :: real

text \<open>\<^verbatim>\<open>Bullet.update\<close>: the moved bullet; it is off screen when its bottom is above the screen.\<close>

definition bullet_update :: "bullet \<Rightarrow> bullet" where
  "bullet_update bl =
     bl\<lparr>bullet_rect := (bullet_rect bl)
           \<lparr>rect_y := coord_of (real_of_int (rect_y (bullet_rect bl)) - bullet_speed bl)\<rparr>\<rparr>"

datatype enemy_type = Basic | Zigzag | Fast

record enemy =
  enemy_rect :: rect
  enemy_speed :: real
  enemy_kind :: enemy_type
  zigzag_direction :: int
  zigzag_counter :: int
  enemy_points :: int

text \<open>\<^verbatim>\<open>Enemy.update\<close>: the moved enemy; it has escaped when its top is below the screen.\<close>

definition enemy_update :: "constants \<Rightarrow> enemy \<Rightarrow> enemy" where
  "enemy_update K e =
     (let e1 = e\<lparr>enemy_rect := (enemy_rect e)
                   \<lparr>rect_y := coord_of (real_of_int (rect_y (enemy_rect e)) + enemy_speed e)\<rparr>\<rparr>
      in if enemy_kind e1 = Zigzag
         then (let e2 = e1\<lparr>zigzag_counter := zigzag_counter e1 + 1\<rparr>;
                   e3 = (if zigzag_counter e2 \<ge> 20
                         then e2\<lparr>zigzag_direction := zigzag_direction e2 * (- 1), zigzag_counter := 0\<rparr>
                         else e2);
                   e4 = e3\<lparr>enemy_rect := (enemy_rect e3)
                             \<lparr>rect_x := rect_x (enemy_rect e3) + zigzag_direction e3 * 2\<rparr>\<rparr>
               in if rect_left (enemy_rect e4) \<le> 0 then e4\<lparr>zigzag_direction := 1\<rparr>
                  else if rect_right (enemy_rect e4) \<ge> SCREEN_WIDTH K then e4\<lparr>zigzag_direction := - 1\<rparr>
                  else e4)
         else e1)"

definition escaped :: "constants \<Rightarrow> enemy \<Rightarrow> bool" where
  "escaped K e = (rect_top (enemy_rect (enemy_update K e)) > SCREEN_HEIGHT K)"

text \<open>The bullet loop: bullets that left the screen are dropped.\<close>

fun bullets_loop :: "bullet list \<Rightarrow> bullet list" where
  "bullets_loop [] = []"
| "bullets_loop (bl # bls) =
     (let bl' = bullet_update bl
      in if rect_bottom (bullet_rect bl') < 0 then bullets_loop bls else bl' # bullets_loop bls)"

text \<open>
  The enemy loop: an enemy that escapes is dropped, and costs one point while the score
  is positive.
\<close>

fun enemies_loop :: "constants \<Rightarrow> enemy list \<Rightarrow> int \<Rightarrow> enemy list \<times> int" where
  "enemies_loop K [] sc = ([], sc)"
| "enemies_loop K (e # es) sc =
     (if escaped K e then enemies_loop K es (if sc > 0 then sc - 1 else sc)
      else (let (rest, sc') = enemies_loop K es sc in (enemy_update K e # rest, sc')))"

text \<open>
  The inner loop of the bullet-enemy check for one bullet: every enemy of the current list
  that the bullet overlaps adds its points and is removed; the loop has no early exit. The
  result is the points gained, whether the bullet hit anything, and the enemies left.
\<close>

fun enemy_scan :: "bullet \<Rightarrow> enemy list \<Rightarrow> int \<times> bool \<times> enemy list" where
  "enemy_scan bl [] = (0, False, [])"
| "enemy_scan bl (e # es) =
     (let (pts, any_hit, rest) = enemy_scan bl es
      in if colliderect (bullet_rect bl) (enemy_rect e)
         then (enemy_points e + pts, True, rest)
         else (pts, any_hit, e # rest))"

text \<open>The outer loop: a bullet that hit something is removed from the bullet list.\<close>

fun bullet_enemy_collisions :: "bullet list \<Rightarrow> enemy list \<Rightarrow> int \<Rightarrow> bullet list \<times> enemy list \<times> int" where
  "bullet_enemy_collisions [] es sc = ([], es, sc)"
| "bullet_enemy_collisions (bl # bls) es sc =
     (let (pts, any_hit, es') = enemy_scan bl es;
          (bls', es'', sc') = bullet_enemy_collisions bls es' (sc + pts)
      in (if any_hit then bls' else bl # bls', es'', sc'))"

record shooter_session =
  sh_player :: player
  sh_bullets :: "bullet list"
  sh_enemies :: "enemy list"
  sh_game_active :: bool
  sh_game_over :: bool
  sh_paused :: bool
  sh_score :: int
  sh_wave :: int
  sh_enemy_count :: int
  sh_last_enemy_time :: int
  sh_wave_start_time :: int
  sh_high_score :: int
  sh_file :: score_file

text \<open>
  The player-enemy loop: an overlapping enemy hits the player unless the player is
  invulnerable; a hit removes the enemy, and ends the session when no lives are left.
\<close>

fun player_enemy_collisions :: "constants \<Rightarrow> int \<Rightarrow> enemy list \<Rightarrow> shooter_session \<Rightarrow> shooter_session" where
  "player_enemy_collisions K now [] g = g\<lparr>sh_enemies := []\<rparr>"
| "player_enemy_collisions K now (e # es) g =
     (if colliderect (pl_rect (sh_player g)) (enemy_rect e)
      then (let (was_hit, pl') = get_hit now (sh_player g)
            in if was_hit
               then player_enemy_collisions K now es
                      (if lives pl' \<le> 0
                       then g\<lparr>sh_player := pl', sh_game_active := False, sh_game_over := True,
                               sh_file := (if sh_score g > sh_high_score g
                                           then snd (add_score K ''Space Shooter'' (sh_score g) (sh_file g))
                                           else sh_file g)\<rparr>
                       else g\<lparr>sh_player := pl'\<rparr>)
               else (let g' = player_enemy_collisions K now es g
                     in g'\<lparr>sh_enemies := e # sh_enemies g'\<rparr>))
      else (let g' = player_enemy_collisions K now es g
            in g'\<lparr>sh_enemies := e # sh_enemies g'\<rparr>))"

record shooter_input =
  in_go_left :: bool
  in_go_right :: bool
  in_time_update :: int
  in_current_time :: int
  in_time_hit :: int
  in_new_enemy :: enemy

text \<open>
  The body of the main loop for an active, unpaused session: player, bullets, enemies
  (with the miss penalty), spawning, wave bonus, then the two collision passes.
\<close>

definition shooter_tick :: "constants \<Rightarrow> shooter_input \<Rightarrow> shooter_session \<Rightarrow> shooter_session" where
  "shooter_tick K i g =
     (let pl1 = player_update K (in_go_left i) (in_go_right i) (in_time_update i) (sh_player g);
          bullets1 = bullets_loop (sh_bullets g);
          (enemies1, score1) = enemies_loop K (sh_enemies g) (sh_score g);
          current_time = in_current_time i;
          spawn = (current_time - sh_last_enemy_time g > ENEMY_FREQUENCY K
                   \<and> int (length enemies1) < sh_enemy_count g);
          enemies2 = (if spawn then enemies1 @ [in_new_enemy i] else enemies1);
          last2 = (if spawn then current_time else sh_last_enemy_time g);
          wave_done = (current_time - sh_wave_start_time g > 20000);
          wave2 = (if wave_done then sh_wave g + 1 else sh_wave g);
          score2 = (if wave_done then score1 + wave2 * 50 else score1);
          (bullets3, enemies3, score3) = bullet_enemy_collisions bullets1 enemies2 score2
      in player_enemy_collisions K (in_time_hit i) enemies3
           (g\<lparr>sh_player := pl1, sh_bullets := bullets3, sh_enemies := enemies3, sh_score := score3,
              sh_wave := wave2,
              sh_enemy_count := (if wave_done then sh_enemy_count g + 2 else sh_enemy_count g),
              sh_last_enemy_time := last2,
              sh_wave_start_time := (if wave_done then current_time else sh_wave_start_time g)\<rparr>))"

section \<open>Pong (\<^verbatim>\<open>games/pong/pong_game.py\<close>)\<close>

record pong_ball =
  pb_rect :: rect
  pb_dx :: real
  pb_dy :: real

text \<open>
  Every path of the pong ball that makes a sound ends in
  \<^verbatim>\<open>pygame.mixer.Sound(self.get_bounce_sound())\<close> or \<^verbatim>\<open>get_score_sound()\<close>, and both helpers
  build \<^verbatim>\<open>pygame.mixer.Sound(pygame.mixer.Sound.play)\<close>: a sound made from a method, which
  pygame refuses with \<^verbatim>\<open>TypeError\<close>. The module catches nothing, so such a call does not
  return. A result is therefore the outcome (the exception, or the returned value) paired
  with the objects as the call leaves them.

  \<^verbatim>\<open>Ball.handle_paddle_collision\<close>: reverse, aim by the strike offset, speed up by a tenth
  while the speed is below 15, then the bounce sound.
\<close>

definition handle_paddle_collision :: "constants \<Rightarrow> rect \<Rightarrow> pong_ball \<Rightarrow> (abort + unit) \<times> pong_ball" where
  "handle_paddle_collision K paddle b =
     (let b1 = b\<lparr>pb_dx := - pb_dx b\<rparr>;
          relative_y = real_of_int (rect_centery paddle - rect_centery (pb_rect b1))
                         / (real_of_int (rect_h paddle) / 2);
          b2 = b1\<lparr>pb_dy := - relative_y * BALL_SPEED_Y K\<rparr>;
          b3 = (if \<bar>pb_dx b2\<bar> < 15 then b2\<lparr>pb_dx := pb_dx b2 * 1.1\<rparr> else b2)
      in (Inl TypeError, b3))"

record pong_paddle =
  pp_rect :: rect
  pp_score :: int

text \<open>
  \<^verbatim>\<open>Ball.update\<close> of pong: the outcome, the ball and the two paddles. A bounce off the top
  or bottom, a point (added before the score sound, so before \<^verbatim>\<open>reset_position\<close>, which is
  never reached) and a paddle hit all end in the exception; only a move that touches
  nothing returns, with \<^verbatim>\<open>None\<close>.
\<close>

definition pong_ball_update :: "constants \<Rightarrow> pong_paddle \<Rightarrow> pong_paddle \<Rightarrow> pong_ball
    \<Rightarrow> (abort + string option) \<times> pong_ball \<times> pong_paddle \<times> pong_paddle" where
  "pong_ball_update K left_paddle right_paddle b =
     (let r1 = (pb_rect b)\<lparr>rect_x := coord_of (real_of_int (rect_x (pb_rect b)) + pb_dx b),
                            rect_y := coord_of (real_of_int (rect_y (pb_rect b)) + pb_dy b)\<rparr>;
          b1 = b\<lparr>pb_rect := r1\<rparr>
      in if rect_top r1 \<le> 0 \<or> rect_bottom r1 \<ge> SCREEN_HEIGHT K
         then (Inl TypeError, b1\<lparr>pb_dy := - pb_dy b1\<rparr>, left_paddle, right_paddle)
         else if rect_left r1 \<le> 0
         then (Inl TypeError, b1, left_paddle, right_paddle\<lparr>pp_score := pp_score right_paddle + 1\<rparr>)
         else if rect_right r1 \<ge> SCREEN_WIDTH K
         then (Inl TypeError, b1, left_paddle\<lparr>pp_score := pp_score left_paddle + 1\<rparr>, right_paddle)
         else (let (res, b2) = (if colliderect (pb_rect b1) (pp_rect left_paddle) \<and> pb_dx b1 < 0
                                then handle_paddle_collision K (pp_rect left_paddle) b1
                                else (Inr (), b1))
               in case res of
                    Inl e \<Rightarrow> (Inl e, b2, left_paddle, right_paddle)
                  | Inr _ \<Rightarrow>
                      (let (res', b3) = (if colliderect (pb_rect b2) (pp_rect right_paddle) \<and> pb_dx b2 > 0
                                         then handle_paddle_collision K (pp_rect right_paddle) b2
                                         else (Inr (), b2))
                       in case res' of
                            Inl e \<Rightarrow> (Inl e, b3, left_paddle, right_paddle)
                          | Inr _ \<Rightarrow> (Inr None, b3, left_paddle, right_paddle))))"

section \<open>Flappy bird (\<^verbatim>\<open>games/flappy/flappy_game.py\<close>)\<close>

record bird =
  bird_rect :: rect
  velocity :: real
  angle :: real

text \<open>\<^verbatim>\<open>Bird.update\<close>: gravity, then clipping at the top of the screen and at ground level.\<close>

definition bird_update :: "constants \<Rightarrow> bird \<Rightarrow> bird" where
  "bird_update K bd =
     (let v = velocity bd + GRAVITY K;
          r = (bird_rect bd)\<lparr>rect_y := coord_of (real_of_int (rect_y (bird_rect bd)) + v)\<rparr>;
          b1 = bd\<lparr>velocity := v, bird_rect := r, angle := max (- 30) (min (- v * 3) 30)\<rparr>;
          b2 = (if rect_top (bird_rect b1) < 0
                then b1\<lparr>bird_rect := set_top 0 (bird_rect b1), velocity := 0\<rparr> else b1)
      in if rect_bottom (bird_rect b2) > SCREEN_HEIGHT K - 50
         then b2\<lparr>bird_rect := set_bottom (SCREEN_HEIGHT K - 50) (bird_rect b2), velocity := 0\<rparr>
         else b2)"

record pipe =
  top_rect :: rect
  bottom_rect :: rect
  pipe_speed :: int
  passed :: bool

text \<open>\<^verbatim>\<open>Pipe.update\<close>: the moved pipe; it is off screen when its right edge is left of 0.\<close>

definition pipe_update :: "pipe \<Rightarrow> pipe" where
  "pipe_update q =
     q\<lparr>top_rect := (top_rect q)\<lparr>rect_x := rect_x (top_rect q) - pipe_speed q\<rparr>,
       bottom_rect := (bottom_rect q)\<lparr>rect_x := rect_x (bottom_rect q) - pipe_speed q\<rparr>\<rparr>"

definition check_collision :: "pipe \<Rightarrow> rect \<Rightarrow> bool" where
  "check_collision q bird_r = (colliderect bird_r (top_rect q) \<or> colliderect bird_r (bottom_rect q))"

record flappy_session =
  fl_bird :: bird
  fl_pipes :: "pipe list"
  fl_game_active :: bool
  fl_game_over :: bool
  fl_paused :: bool
  fl_score :: int
  fl_last_pipe_time :: int
  fl_high_score :: int
  fl_file :: score_file

text \<open>
  The pipe loop of \<^verbatim>\<open>run_flappy_game\<close>: each pipe moves, a pipe that left the screen is
  dropped, a pipe the bird has passed scores one point, and a pipe the bird touches ends
  the session.
\<close>

fun pipes_loop :: "constants \<Rightarrow> pipe list \<Rightarrow> flappy_session \<Rightarrow> flappy_session" where
  "pipes_loop K [] g = g\<lparr>fl_pipes := []\<rparr>"
| "pipes_loop K (q # qs) g =
     (let q1 = pipe_update q;
          off_screen = (rect_right (top_rect q1) < 0);
          pass = (\<not> passed q1 \<and> rect_right (top_rect q1) < rect_left (bird_rect (fl_bird g)));
          q2 = (if pass then q1\<lparr>passed := True\<rparr> else q1);
          g1 = (if pass then g\<lparr>fl_score := fl_score g + 1\<rparr> else g);
          g2 = (if check_collision q2 (bird_rect (fl_bird g1))
                then g1\<lparr>fl_game_active := False, fl_game_over := True,
                        fl_file := (if fl_score g1 > fl_high_score g1
                                    then snd (add_score K ''Flappy Bird'' (fl_score g1) (fl_file g1))
                                    else fl_file g1)\<rparr>
                else g1);
          g3 = pipes_loop K qs g2
      in if off_screen then g3 else g3\<lparr>fl_pipes := q2 # fl_pipes g3\<rparr>)"

text \<open>
  The body of the flappy main loop for an active, unpaused session; \<open>now\<close> is the clock
  reading and \<open>new_pipe\<close> the pipe a spawn would create. The scrolling of the ground
  texture is left out.
\<close>

definition flappy_tick :: "constants \<Rightarrow> int \<Rightarrow> pipe \<Rightarrow> flappy_session \<Rightarrow> flappy_session" where
  "flappy_tick K now new_pipe g =
     (let bd = bird_update K (fl_bird g);
          spawn = (now - fl_last_pipe_time g > PIPE_FREQUENCY K);
          pipes1 = (if spawn then fl_pipes g @ [new_pipe] else fl_pipes g);
          g1 = g\<lparr>fl_bird := bd, fl_pipes := pipes1,
                 fl_last_pipe_time := (if spawn then now else fl_last_pipe_time g)\<rparr>;
          g2 = pipes_loop K pipes1 g1
      in if rect_bottom (bird_rect (fl_bird g2)) \<ge> SCREEN_HEIGHT K - 50
         then g2\<lparr>fl_game_active := False, fl_game_over := True,
                 fl_file := (if fl_score g2 > fl_high_score g2
                             then snd (add_score K ''Flappy Bird'' (fl_score g2) (fl_file g2))
                             else fl_file g2)\<rparr>
         else g2)"

section \<open>Sample values\<close>

text \<open>
  Sample values for the constants, used only where the model is evaluated on a concrete
  input. The titles are the games the launcher offers.
\<close>

definition demo_constants :: constants where
  "demo_constants =
     \<lparr>SCREEN_WIDTH = 800, SCREEN_HEIGHT = 600,
      GAME_TITLES = [''Snake'', ''Pong'', ''Breakout'', ''Flappy Bird'', ''Space Shooter''],
      SNAKE_GRID_SIZE = 10, BALL_SPEED_X = 5, BALL_SPEED_Y = 5,
      PADDLE_WIDTH_BREAKOUT = 100, BRICK_HEIGHT = 20, BRICK_ROWS = 7, BRICK_COLS = 10,
      PLAYER_SPEED = 5, GRAVITY = 0.5, PIPE_FREQUENCY = 1500, ENEMY_FREQUENCY = 1000\<rparr>"

text \<open>A snake of five cells that has curled back on itself and now turns right into its body.\<close>

definition curled_snake :: snake where
  "curled_snake =
     \<lparr>snake_length = 3,
      positions = [(20, 20), (20, 30), (30, 30), (30, 20), (40, 20)],
      direction = (1, 0), score = 20, grow_to = 5, dead = False\<rparr>"

definition curled_session :: snake_session where
  "curled_session =
     \<lparr>sn_snake = curled_snake, sn_food = (100, 100), sn_game_active = True,
      sn_game_over = False, sn_paused = False, sn_high_score = 50,
      sn_file = Stored [(''Snake'', [50])]\<rparr>"

text \<open>The paddle of the bounce scenario: width 40, centred at x = 100.\<close>

definition demo_paddle :: bk_paddle where
  "demo_paddle = \<lparr>paddle_width = 40, paddle_height = 15,
      paddle_rect = \<lparr>rect_x = 80, rect_y = 560, rect_w = 40, rect_h = 15\<rparr>, paddle_speed = 10\<rparr>"

text \<open>A ball in flight whose next move brings its centre to x = 110 on that paddle.\<close>

definition falling_ball :: ball where
  "falling_ball = \<lparr>ball_rect = \<lparr>rect_x = 102, rect_y = 540, rect_w = 20, rect_h = 20\<rparr>, radius = 10,
      ball_dx = - 2, ball_dy = 5, speed_increase = 0.05, max_speed = 10, attached = False\<rparr>"

text \<open>Two neighbouring one-hit bricks of the third row, and a two-hit brick of the top row.\<close>

definition brick_a :: brick where
  "brick_a = \<lparr>brick_rect = \<lparr>rect_x = 100, rect_y = 100, rect_w = 75, rect_h = 20\<rparr>,
      brick_color = [200, 30, 30], brick_points = 50, strength = 1, original_strength = 1\<rparr>"


definition tough_brick :: brick where
  "tough_brick = \<lparr>brick_rect = \<lparr>rect_x = 100, rect_y = 50, rect_w = 75, rect_h = 20\<rparr>,
      brick_color = [30, 30, 200], brick_points = 70, strength = 2, original_strength = 2\<rparr>"


text \<open>A ball in flight whose next move puts it onto the two-hit brick.\<close>

definition rising_ball :: ball where
  "rising_ball = \<lparr>ball_rect = \<lparr>rect_x = 120, rect_y = 70, rect_w = 20, rect_h = 20\<rparr>, radius = 10,
      ball_dx = 5, ball_dy = - 5, speed_increase = 0.05, max_speed = 10, attached = False\<rparr>"




text \<open>A ball in flight at the speed every update leaves once the cap is reached.\<close>

definition fast_ball :: ball where
  "fast_ball = \<lparr>ball_rect = \<lparr>rect_x = 400, rect_y = 300, rect_w = 20, rect_h = 20\<rparr>, radius = 10,
      ball_dx = 2001 / 200, ball_dy = - (2001 / 200), speed_increase = 0.05, max_speed = 10,
      attached = False\<rparr>"

text \<open>A ball resting on the sample paddle, and one that has just fallen below the screen.\<close>

definition resting_ball :: ball where
  "resting_ball = \<lparr>ball_rect = \<lparr>rect_x = 90, rect_y = 540, rect_w = 20, rect_h = 20\<rparr>, radius = 10,
      ball_dx = 5, ball_dy = - 5, speed_increase = 0.05, max_speed = 10, attached = True\<rparr>"

definition sunk_ball :: ball where
  "sunk_ball = \<lparr>ball_rect = \<lparr>rect_x = 300, rect_y = 605, rect_w = 20, rect_h = 20\<rparr>, radius = 10,
      ball_dx = 2, ball_dy = 5, speed_increase = 0.05, max_speed = 10, attached = False\<rparr>"

text \<open>An extra-life power-up one step above the sample paddle.\<close>

definition extra_life_powerup :: powerup where
  "extra_life_powerup = \<lparr>pu_rect = \<lparr>rect_x = 90, rect_y = 550, rect_w = 30, rect_h = 15\<rparr>,
      pu_type = ExtraLife, pu_dy = 3\<rparr>"

definition calm_input :: breakout_input where
  "calm_input = \<lparr>in_mouse_x = 100, in_key_left = False, in_key_right = False, in_wall_u1 = 0,
      in_wall_u2 = 0, in_spawn_roll = 0.5, in_spawn_type = Expand, in_lost_dir = 1,
      in_level_dir = 1, in_colors = [[200, 30, 30]]\<rparr>"

text \<open>A breakout session with three lives about to catch the extra life.\<close>

definition extra_life_session :: breakout_session where
  "extra_life_session =
     \<lparr>bk_pad = demo_paddle, bk_ball = resting_ball, bk_bricks = [brick_a],
      bk_powerups = [extra_life_powerup], bk_game_active = True, bk_game_over = False,
      bk_paused = False, bk_score = 120, bk_lives = 3, bk_level = 1, bk_mouse_control = True,
      bk_high_score = 500, bk_file = Stored [(''Breakout'', [500])]\<rparr>"

text \<open>A breakout session on its last life whose ball has left the screen.\<close>

definition last_life_session :: breakout_session where
  "last_life_session =
     \<lparr>bk_pad = demo_paddle, bk_ball = sunk_ball, bk_bricks = [brick_a],
      bk_powerups = [], bk_game_active = True, bk_game_over = False,
      bk_paused = False, bk_score = 120, bk_lives = 1, bk_level = 1, bk_mouse_control = True,
      bk_high_score = 500, bk_file = Stored [(''Breakout'', [500])]\<rparr>"

text \<open>A shooter session on its last life with an enemy about to reach the player.\<close>

definition demo_player :: player where
  "demo_player = \<lparr>pl_rect = \<lparr>rect_x = 380, rect_y = 500, rect_w = 50, rect_h = 50\<rparr>, pl_speed = 5,
      shoot_cooldown = 0, cooldown_time = 250, lives = 1, invulnerable = False,
      invulnerable_timer = 0, invulnerable_duration = 2000\<rparr>"

definition diving_enemy :: enemy where
  "diving_enemy = \<lparr>enemy_rect = \<lparr>rect_x = 390, rect_y = 478, rect_w = 40, rect_h = 40\<rparr>,
      enemy_speed = 2, enemy_kind = Basic, zigzag_direction = 1, zigzag_counter = 0,
      enemy_points = 10\<rparr>"

definition last_life_shooter :: shooter_session where
  "last_life_shooter =
     \<lparr>sh_player = demo_player, sh_bullets = [], sh_enemies = [diving_enemy],
      sh_game_active = True, sh_game_over = False, sh_paused = False, sh_score = 30, sh_wave = 1,
      sh_enemy_count = 5, sh_last_enemy_time = 0, sh_wave_start_time = 0, sh_high_score = 100,
      sh_file = Stored [(''Space Shooter'', [100])]\<rparr>"

definition quiet_input :: shooter_input where
  "quiet_input = \<lparr>in_go_left = False, in_go_right = False, in_time_update = 500,
      in_current_time = 500, in_time_hit = 500, in_new_enemy = diving_enemy\<rparr>"

text \<open>An enemy one step from leaving the screen at the bottom.\<close>

definition fleeing_enemy :: enemy where
  "fleeing_enemy = \<lparr>enemy_rect = \<lparr>rect_x = 200, rect_y = 599, rect_w = 40, rect_h = 40\<rparr>,
      enemy_speed = 2, enemy_kind = Basic, zigzag_direction = 1, zigzag_counter = 0,
      enemy_points = 10\<rparr>"

text \<open>A snake of three cells with food in the cell ahead of it.\<close>

definition hungry_snake :: snake where
  "hungry_snake =
     \<lparr>snake_length = 3, positions = [(20, 20), (20, 30), (20, 40)],
      direction = (1, 0), score = 0, grow_to = 3, dead = False\<rparr>"

definition hungry_session :: snake_session where
  "hungry_session =
     \<lparr>sn_snake = hungry_snake, sn_food = (30, 20), sn_game_active = True,
      sn_game_over = False, sn_paused = False, sn_high_score = 50,
      sn_file = Stored [(''Snake'', [50])]\<rparr>"

section \<open>Properties of the score store\<close>

lemma sorted_desc_top5: "sorted_wrt (\<ge>) (top5 xs)"
proof -
  have "sorted_wrt (\<ge>) (rev (sort xs))"
    by (simp add: sorted_wrt_rev)
  then show ?thesis
    unfolding top5_def by (rule sorted_wrt_take)
qed

lemma length_top5: "length (top5 xs) \<le> 5"
  by (simp add: top5_def)

lemma desc_take_member:
  "sorted_wrt (\<ge>) (L :: int list) \<Longrightarrow> s \<in> set L \<Longrightarrow> length (filter (\<lambda>x. s < x) L) < n
     \<Longrightarrow> s \<in> set (take n L)"
proof (induction L arbitrary: n)
  case Nil
  then show ?case by simp
next
  case (Cons a L)
  obtain m where n: "n = Suc m"
    using Cons.prems(3) by (cases n) auto
  show ?case
  proof (cases "a = s")
    case True
    then show ?thesis by (simp add: n)
  next
    case False
    with Cons.prems have mem: "s \<in> set L" and gt: "s < a"
      by auto
    from Cons.prems(3) gt have "length (filter (\<lambda>x. s < x) L) < m"
      by (simp add: n)
    with Cons.IH [of m] Cons.prems(1) mem have "s \<in> set (take m L)"
      by simp
    then show ?thesis by (simp add: n)
  qed
qed

lemma length_filter_rev_sort:
  "length (filter P (rev (sort xs))) = length (filter P (xs :: int list))"
proof -
  have "mset (filter P (rev (sort xs))) = mset (filter P xs)"
    by (simp add: mset_filter)
  then show ?thesis
    by (metis size_mset)
qed

lemma new_score_in_top5:
  assumes "length (filter (\<lambda>x. sc < x) xs) < 5"
  shows "sc \<in> set (top5 (xs @ [sc]))"
proof -
  let ?L = "rev (sort (xs @ [sc]))"
  have "sorted_wrt (\<ge>) ?L"
    by (simp add: sorted_wrt_rev)
  moreover have "sc \<in> set ?L"
    by simp
  moreover have "length (filter (\<lambda>x. sc < x) ?L) < 5"
    using assms by (simp add: length_filter_rev_sort)
  ultimately show ?thesis
    unfolding top5_def by (rule desc_take_member)
qed

lemma map_of_update_same: "map_of (AList.update k v al) k = Some v"
  by (simp add: update_conv')

lemma reload_after_add_score:
  "stored_scores K g (snd (add_score K g sc f)) =
     (case map_of (fst (load_leaderboard K f)) g of
        Some xs \<Rightarrow> top5 (xs @ [sc]) | None \<Rightarrow> [sc])"
  by (simp add: stored_scores_def add_score_def load_leaderboard_def map_of_update_same
      split: prod.splits option.splits score_file.splits)

text \<open>
  C4. Adding a score for a title and reloading the store yields, for that title, a list
  in descending order with at most five entries; the new score is in it whenever fewer
  than five of the previously stored scores of the title are strictly greater (it ranks
  in the top five of the old scores plus the new one). This holds whether the file was
  missing, unparsable or held a document, and in particular for every known title.
\<close>

theorem add_score_reload_roundtrip:
  "sorted_wrt (\<ge>) (stored_scores K g (snd (add_score K g sc f)))
   \<and> length (stored_scores K g (snd (add_score K g sc f))) \<le> 5
   \<and> (length (filter (\<lambda>x. sc < x) (stored_scores K g f)) < 5
        \<longrightarrow> sc \<in> set (stored_scores K g (snd (add_score K g sc f))))"
proof (cases "map_of (fst (load_leaderboard K f)) g")
  case None
  then show ?thesis
    by (simp add: reload_after_add_score)
next
  case (Some xs)
  then have old: "stored_scores K g f = xs"
    by (simp add: stored_scores_def)
  from Some have new: "stored_scores K g (snd (add_score K g sc f)) = top5 (xs @ [sc])"
    by (simp add: reload_after_add_score)
  show ?thesis
    unfolding new old
    using sorted_desc_top5 [of "xs @ [sc]"] length_top5 [of "xs @ [sc]"]
      new_score_in_top5 [of sc xs]
    by blast
qed


theorem add_score_reload_roundtrip_witness:
  "length (filter (\<lambda>x. 35 < x)
      (stored_scores demo_constants ''Snake'' (Stored [(''Snake'', [50, 40, 30, 20, 10])]))) < 5
   \<and> stored_scores demo_constants ''Snake''
        (snd (add_score demo_constants ''Snake'' 35 (Stored [(''Snake'', [50, 40, 30, 20, 10])])))
      = [50, 40, 35, 30, 20]"
  using add_score_reload_roundtrip
    [of demo_constants "''Snake''" 35 "Stored [(''Snake'', [50, 40, 30, 20, 10])]"]
  by (simp add: stored_scores_def load_leaderboard_def add_score_def top5_def)

lemma map_of_fold_update:
  "map_of (foldl (\<lambda>d game. AList.update game [] d) d0 titles) g =
     (if g \<in> set titles then Some [] else map_of d0 g)"
  by (induction titles arbitrary: d0) (simp_all add: update_conv')

lemma empty_leaderboard_lookup:
  "map_of (empty_leaderboard K) g = (if g \<in> set (GAME_TITLES K) then Some [] else None)"
  by (simp add: empty_leaderboard_def map_of_fold_update)

text \<open>
  C5. Loading a missing file returns the empty mapping (an empty list for every known
  title, by \<open>empty_leaderboard_lookup\<close>) and creates the file with it. Loading an
  unparsable file also returns the empty mapping without raising, but the file is left
  as it was: \<^verbatim>\<open>init_leaderboard\<close> writes only when no file exists. The theorem evaluates
  both cases.
\<close>

theorem load_leaderboard_corrupt_file_kept:
  "load_leaderboard K Missing = (empty_leaderboard K, Stored (empty_leaderboard K))
   \<and> load_leaderboard K Corrupt = (empty_leaderboard K, Corrupt)"
  by (simp add: load_leaderboard_def init_leaderboard_def)

section \<open>Properties of the snake\<close>

text \<open>
  C2. The snake session records its final score on the transition to game over without
  comparing it with the stored high score. Here the stored high score of Snake is 50, the
  session ends with 20 points, and the store changes from [50] to [50, 20].
\<close>

theorem snake_game_over_records_lower_score:
  "get_high_score demo_constants ''Snake'' (sn_file curled_session) = (50, sn_file curled_session)
   \<and> score (sn_snake curled_session) = 20
   \<and> (case snake_step demo_constants [] curled_session of
         Inl e \<Rightarrow> False
       | Inr g \<Rightarrow> sn_game_over g \<and> \<not> sn_game_active g \<and> score (sn_snake g) = 20
                 \<and> sn_file g = Stored [(''Snake'', [50, 20])])"
  by (simp add: get_high_score_def load_leaderboard_def py_max_def curled_session_def
      curled_snake_def snake_step_def snake_update_def demo_constants_def add_score_def top5_def)

text \<open>
  C10. \<^verbatim>\<open>change_direction d\<close> sets the direction to \<open>d\<close> unless \<open>d\<close> is the exact negation
  of the current direction, in which case the direction stays; so, for a snake that is
  moving, the direction after the call is never the negation of the direction before it.
\<close>

theorem change_direction_no_reversal:
  "direction (change_direction d s) =
     (if d = (- fst (direction s), - snd (direction s)) then direction s else d)
   \<and> (direction s \<noteq> (0, 0) \<longrightarrow>
        direction (change_direction d s) \<noteq> (- fst (direction s), - snd (direction s)))"
  by (cases d; cases "direction s") (auto simp: change_direction_def)

theorem change_direction_no_reversal_witness:
  "direction curled_snake \<noteq> (0, 0)
   \<and> direction (change_direction (- 1, 0) curled_snake) = (1, 0)
   \<and> direction (change_direction (0, 1) curled_snake) = (0, 1)"
  using change_direction_no_reversal [of "(- 1, 0)" curled_snake]
    change_direction_no_reversal [of "(0, 1)" curled_snake]
  by (simp add: curled_snake_def)

section \<open>Properties of the breakout ball\<close>

lemmas rect_defs = rect_left_def rect_right_def rect_top_def rect_bottom_def rect_centerx_def
  rect_centery_def set_left_def set_right_def set_bottom_def set_centerx_def

lemma move_ball_sel:
  "ball_dx (move_ball b) = ball_dx b" "ball_dy (move_ball b) = ball_dy b"
  "max_speed (move_ball b) = max_speed b" "speed_increase (move_ball b) = speed_increase b"
  by (simp_all add: move_ball_def)

lemma wall_bounce_clear:
  assumes "0 < rect_left (ball_rect b)" "rect_right (ball_rect b) < SCREEN_WIDTH K"
    "0 < rect_top (ball_rect b)"
  shows "wall_bounce K u1 u2 b = b"
  using assms by (simp add: wall_bounce_def)

lemma paddle_bounce_hit:
  assumes "colliderect (ball_rect b) (paddle_rect p)" "0 < ball_dy b"
  shows "paddle_bounce p b =
    b\<lparr>ball_dx := real_of_int (rect_centerx (ball_rect b) - rect_centerx (paddle_rect p))
                    / (real_of_int (rect_w (paddle_rect p)) / 2) * 7,
      ball_dy := (if ball_dy b < 3 then - 3 else - ball_dy b)\<rparr>"
  using assms by (simp add: paddle_bounce_def Let_def)

lemma brick_scan_none:
  "\<forall>bk \<in> set bricks. \<not> colliderect r (brick_rect bk) \<Longrightarrow> brick_scan r bricks = None"
  by (induction bricks) simp_all

lemma brick_collisions_clear:
  "\<forall>bk \<in> set bricks. \<not> colliderect (ball_rect b) (brick_rect bk)
     \<Longrightarrow> brick_collisions px py b bricks = (b, bricks, 0, [])"
  by (simp add: brick_collisions_def brick_scan_none)

lemma ball_rect_phases:
  "ball_rect (wall_bounce K u1 u2 b) = ball_rect b"
  "ball_rect (paddle_bounce p b) = ball_rect b"
  "ball_rect (limit_speed b) = ball_rect b"
  "ball_rect (speed_up b) = ball_rect b"
  by (simp_all add: wall_bounce_def paddle_bounce_def limit_speed_def speed_up_def Let_def)

text \<open>
  C7. Paddle of width 40 centred at x = 100; at the paddle check of the update (after the
  move and the wall handling) the ball overlaps the paddle with its centre at x = 110 and
  moves downward. The paddle-collision response then leaves the ball with horizontal
  velocity 0.5 * 7 and with a vertical velocity that points upward with magnitude at least
  the floor 3; the speed limit that follows it keeps both, for a ball whose
  \<^verbatim>\<open>max_speed\<close> is at least 3.5.
\<close>

theorem paddle_bounce_scenario:
  assumes pad: "rect_w (paddle_rect p) = 40" "rect_centerx (paddle_rect p) = 100"
    and strike: "rect_centerx (ball_rect b) = 110" "colliderect (ball_rect b) (paddle_rect p)"
    and down: "0 < ball_dy b"
  shows "ball_dx (paddle_bounce p b) = 0.5 * 7
    \<and> ball_dy (paddle_bounce p b) < 0
    \<and> 3 \<le> \<bar>ball_dy (paddle_bounce p b)\<bar>
    \<and> (0.5 * 7 \<le> max_speed b \<longrightarrow>
          ball_dx (limit_speed (paddle_bounce p b)) = 0.5 * 7
          \<and> ball_dy (limit_speed (paddle_bounce p b)) < 0
          \<and> 3 \<le> \<bar>ball_dy (limit_speed (paddle_bounce p b))\<bar>)"
proof -
  let ?v = "if ball_dy b < 3 then - 3 else - ball_dy b"
  have pb: "paddle_bounce p b = b\<lparr>ball_dx := 7 / 2, ball_dy := ?v\<rparr>"
    using paddle_bounce_hit [OF strike(2) down] by (simp add: pad strike(1))
  have v: "?v \<le> - 3"
    using down by simp
  have response: "ball_dx (paddle_bounce p b) = 0.5 * 7" "ball_dy (paddle_bounce p b) < 0"
    "3 \<le> \<bar>ball_dy (paddle_bounce p b)\<bar>"
    using v unfolding pb by simp_all
  have limited: "ball_dx (limit_speed (paddle_bounce p b)) = 0.5 * 7
      \<and> ball_dy (limit_speed (paddle_bounce p b)) < 0
      \<and> 3 \<le> \<bar>ball_dy (limit_speed (paddle_bounce p b))\<bar>" if "0.5 * 7 \<le> max_speed b"
  proof -
    from that have ms: "7 / 2 \<le> max_speed b" by simp
    define a where "a = max ?v (- max_speed b)"
    have a: "a \<le> - 3"
      using v ms by (simp add: a_def)
    have "max (min ?v (max_speed b)) (- max_speed b) = a"
      using v ms by (simp add: a_def min_def)
    then have ls: "limit_speed (paddle_bounce p b) = b\<lparr>ball_dx := 7 / 2, ball_dy := a\<rparr>"
      using ms unfolding pb by (simp add: limit_speed_def min_def max_def)
    show ?thesis
      unfolding ls using a by simp
  qed
  from response limited show ?thesis by blast
qed

lemma falling_ball_moved:
  "move_ball falling_ball =
     falling_ball\<lparr>ball_rect := \<lparr>rect_x = 100, rect_y = 545, rect_w = 20, rect_h = 20\<rparr>\<rparr>"
  by (simp add: move_ball_def falling_ball_def coord_of_def)

lemma falling_ball_strikes:
  "colliderect \<lparr>rect_x = 100, rect_y = 545, rect_w = 20, rect_h = 20\<rparr> (paddle_rect demo_paddle)"
  by (simp add: colliderect_def demo_paddle_def)

lemma falling_ball_at_paddle_check:
  "wall_bounce demo_constants 0 0 (move_ball falling_ball) =
     falling_ball\<lparr>ball_rect := \<lparr>rect_x = 100, rect_y = 545, rect_w = 20, rect_h = 20\<rparr>\<rparr>"
  unfolding falling_ball_moved
  by (simp add: wall_bounce_def rect_defs demo_constants_def)

text \<open>
  The bounce scenario on the sample paddle, for the sample ball as the update has it at
  the paddle check.
\<close>

theorem paddle_bounce_scenario_witness:
  "rect_w (paddle_rect demo_paddle) = 40 \<and> rect_centerx (paddle_rect demo_paddle) = 100
   \<and> rect_centerx (ball_rect (wall_bounce demo_constants 0 0 (move_ball falling_ball))) = 110
   \<and> colliderect (ball_rect (wall_bounce demo_constants 0 0 (move_ball falling_ball)))
        (paddle_rect demo_paddle)
   \<and> 0 < ball_dy (wall_bounce demo_constants 0 0 (move_ball falling_ball))
   \<and> 0.5 * 7 \<le> max_speed (wall_bounce demo_constants 0 0 (move_ball falling_ball))
   \<and> ball_dx (paddle_bounce demo_paddle (wall_bounce demo_constants 0 0 (move_ball falling_ball)))
        = 3.5
   \<and> ball_dy (paddle_bounce demo_paddle (wall_bounce demo_constants 0 0 (move_ball falling_ball)))
        = - 5
   \<and> ball_dx (limit_speed (paddle_bounce demo_paddle
          (wall_bounce demo_constants 0 0 (move_ball falling_ball)))) = 0.5 * 7
   \<and> ball_dy (limit_speed (paddle_bounce demo_paddle
          (wall_bounce demo_constants 0 0 (move_ball falling_ball)))) < 0
   \<and> 3 \<le> \<bar>ball_dy (limit_speed (paddle_bounce demo_paddle
          (wall_bounce demo_constants 0 0 (move_ball falling_ball))))\<bar>"
proof -
  let ?b = "wall_bounce demo_constants 0 0 (move_ball falling_ball)"
  have h: "rect_w (paddle_rect demo_paddle) = 40" "rect_centerx (paddle_rect demo_paddle) = 100"
    "rect_centerx (ball_rect ?b) = 110" "colliderect (ball_rect ?b) (paddle_rect demo_paddle)"
    "0 < ball_dy ?b"
    using falling_ball_strikes unfolding falling_ball_at_paddle_check
    by (simp_all add: rect_defs) (simp_all add: falling_ball_def demo_paddle_def)
  have ms: "0.5 * 7 \<le> max_speed ?b"
    unfolding falling_ball_at_paddle_check by (simp add: falling_ball_def)
  have dy: "ball_dy (paddle_bounce demo_paddle ?b) = - 5"
    using paddle_bounce_hit [OF h(4) h(5)] unfolding falling_ball_at_paddle_check
    by (simp add: falling_ball_def)
  from paddle_bounce_scenario [OF h] ms
  have dx: "ball_dx (paddle_bounce demo_paddle ?b) = 0.5 * 7"
    and lim: "ball_dx (limit_speed (paddle_bounce demo_paddle ?b)) = 0.5 * 7"
      "ball_dy (limit_speed (paddle_bounce demo_paddle ?b)) < 0"
      "3 \<le> \<bar>ball_dy (limit_speed (paddle_bounce demo_paddle ?b))\<bar>"
    by blast+
  from dx have dx': "ball_dx (paddle_bounce demo_paddle ?b) = 3.5"
    by simp
  from h ms dx' dy lim show ?thesis
    by blast
qed

lemma hit_fst: "fst (hit b) = (strength b \<le> 1, brick_points b)"
  by (simp add: hit_def Let_def)

lemma hit_snd_sel:
  "strength (snd (hit b)) = strength b - 1" "brick_points (snd (hit b)) = brick_points b"
  "brick_rect (snd (hit b)) = brick_rect b" "original_strength (snd (hit b)) = original_strength b"
  by (simp_all add: hit_def Let_def)

lemma brick_scan_first:
  "brick_scan r bricks =
     (case dropWhile (\<lambda>bk. \<not> colliderect r (brick_rect bk)) bricks of
        [] \<Rightarrow> None
      | bk # rest \<Rightarrow>
          Some (snd (hit bk), strength bk \<le> 1, brick_points bk,
                takeWhile (\<lambda>bk. \<not> colliderect r (brick_rect bk)) bricks
                  @ (if strength bk \<le> 1 then rest else snd (hit bk) # rest)))"
proof (induction bricks)
  case Nil
  then show ?case by simp
next
  case (Cons b bs)
  show ?case
  proof (cases "colliderect r (brick_rect b)")
    case True
    obtain broken pts b' where h: "hit b = ((broken, pts), b')"
      by (metis surj_pair)
    with hit_fst [of b] have "broken = (strength b \<le> 1)" "pts = brick_points b"
      by simp_all
    with True h show ?thesis by simp
  next
    case False
    let ?miss = "\<lambda>bk. \<not> colliderect r (brick_rect bk)"
    from False have step: "brick_scan r (b # bs) =
        (case brick_scan r bs of
           None \<Rightarrow> None
         | Some (b', broken, pts, bs') \<Rightarrow> Some (b', broken, pts, b # bs'))"
      by simp
    from False have tw: "takeWhile ?miss (b # bs) = b # takeWhile ?miss bs"
      "dropWhile ?miss (b # bs) = dropWhile ?miss bs"
      by simp_all
    show ?thesis
      unfolding step tw Cons.IH
      by (cases "dropWhile ?miss bs") (simp_all del: dropWhile_eq_Nil_conv)
  qed
qed

lemma ball_rect_flight:
  "ball_rect (limit_speed (paddle_bounce p (wall_bounce K u1 u2 (move_ball b)))) = ball_rect (move_ball b)"
  by (simp add: ball_rect_phases)

lemma ball_update_flight:
  assumes "\<not> attached b"
  shows "fst (ball_update K u1 u2 p b bricks) =
           (case brick_scan (ball_rect (move_ball b)) bricks of
              None \<Rightarrow> (0, [])
            | Some (bk, broken, pts, bricks') \<Rightarrow> (if broken then pts else 0, if broken then [bk] else []))"
    and "snd (snd (ball_update K u1 u2 p b bricks)) =
           (case brick_scan (ball_rect (move_ball b)) bricks of
              None \<Rightarrow> bricks
            | Some (bk, broken, pts, bricks') \<Rightarrow> bricks')"
  using assms
  by (simp_all add: ball_update_def brick_collisions_def ball_rect_flight Let_def
      split: option.splits prod.splits)

lemma enemy_scan_all:
  "enemy_scan bl es =
     (sum_list (map enemy_points (filter (\<lambda>e. colliderect (bullet_rect bl) (enemy_rect e)) es)),
      filter (\<lambda>e. colliderect (bullet_rect bl) (enemy_rect e)) es \<noteq> [],
      filter (\<lambda>e. \<not> colliderect (bullet_rect bl) (enemy_rect e)) es)"
  by (induction es) (simp_all split: prod.splits)







lemma brick_scan_head:
  "colliderect r (brick_rect b) \<Longrightarrow>
     brick_scan r (b # bs) =
       Some (snd (hit b), strength b \<le> 1, brick_points b,
             if strength b \<le> 1 then bs else snd (hit b) # bs)"
  by (simp add: brick_scan_first del: brick_scan.simps)

text \<open>
  C8 (as amended). A brick of strength 2 that the ball strikes: \<^verbatim>\<open>Brick.hit\<close> returns
  not-broken together with the declared point value (not 0); the ball update ignores the
  points of an unbroken brick, so the score change is 0, no brick is reported broken and
  the brick stays in the live list with strength 1. Struck a second time, \<^verbatim>\<open>hit\<close> returns
  broken with the declared point value, the score change is that value and the brick is
  removed from the live list.
\<close>

theorem brick_two_hits:
  assumes tough: "strength bk = 2"
    and first: "\<not> attached b" "colliderect (ball_rect (move_ball b)) (brick_rect bk)"
    and second: "\<not> attached b'" "colliderect (ball_rect (move_ball b')) (brick_rect bk)"
  shows "fst (hit bk) = (False, brick_points bk)
    \<and> fst (ball_update K u1 u2 p b (bk # bricks)) = (0, [])
    \<and> snd (snd (ball_update K u1 u2 p b (bk # bricks))) = snd (hit bk) # bricks
    \<and> fst (hit (snd (hit bk))) = (True, brick_points bk)
    \<and> fst (ball_update K u1' u2' p' b' (snd (hit bk) # bricks))
          = (brick_points bk, [snd (hit (snd (hit bk)))])
    \<and> snd (snd (ball_update K u1' u2' p' b' (snd (hit bk) # bricks))) = bricks"
proof -
  have again: "colliderect (ball_rect (move_ball b')) (brick_rect (snd (hit bk)))"
    using second(2) by (simp add: hit_snd_sel)
  show ?thesis
    unfolding ball_update_flight [OF first(1)] ball_update_flight [OF second(1)]
      brick_scan_head [OF first(2)] brick_scan_head [OF again]
    using tough by (simp add: hit_fst hit_snd_sel)
qed

lemma rising_ball_overlaps:
  "colliderect (ball_rect (move_ball rising_ball)) (brick_rect tough_brick)"
  by (simp add: move_ball_def rising_ball_def coord_of_def colliderect_def tough_brick_def)

theorem brick_two_hits_witness:
  "strength tough_brick = 2 \<and> \<not> attached rising_ball
   \<and> colliderect (ball_rect (move_ball rising_ball)) (brick_rect tough_brick)
   \<and> fst (hit tough_brick) = (False, 70)
   \<and> fst (ball_update demo_constants 0 0 demo_paddle rising_ball [tough_brick, brick_a]) = (0, [])
   \<and> snd (snd (ball_update demo_constants 0 0 demo_paddle rising_ball [tough_brick, brick_a]))
        = [snd (hit tough_brick), brick_a]
   \<and> fst (fst (ball_update demo_constants 0 0 demo_paddle rising_ball [snd (hit tough_brick), brick_a])) = 70
   \<and> snd (snd (ball_update demo_constants 0 0 demo_paddle rising_ball [snd (hit tough_brick), brick_a]))
        = [brick_a]"
proof -
  have h: "strength tough_brick = 2" "\<not> attached rising_ball" "brick_points tough_brick = 70"
    by (simp_all add: tough_brick_def rising_ball_def)
  from brick_two_hits [OF h(1) h(2) rising_ball_overlaps h(2) rising_ball_overlaps,
      of demo_constants 0 0 demo_paddle "[brick_a]" 0 0 demo_paddle] h rising_ball_overlaps
  show ?thesis by simp
qed

text \<open>
  C8 as stated fails: the first hit on a brick of strength 2 worth 70 points returns
  (not broken, 70), not (not broken, 0).
\<close>

theorem brick_first_hit_returns_points:
  "strength tough_brick = 2 \<and> brick_points tough_brick = 70
   \<and> fst (hit tough_brick) = (False, 70) \<and> fst (hit tough_brick) \<noteq> (False, 0)"
  by (simp add: hit_def tough_brick_def)

section \<open>Speed cap of the breakout ball\<close>

lemma fast_ball_update:
  "fst (snd (ball_update demo_constants 0 0 demo_paddle fast_ball [brick_a])) =
     fast_ball\<lparr>ball_rect := \<lparr>rect_x = 410, rect_y = 290, rect_w = 20, rect_h = 20\<rparr>\<rparr>"
proof -
  let ?r = "\<lparr>rect_x = 410, rect_y = 290, rect_w = 20, rect_h = 20\<rparr>"
  let ?m = "fast_ball\<lparr>ball_rect := ?r\<rparr>"
  have fl: "coord_of (400 + 2001 / 200) = 410" "coord_of (300 - 2001 / 200) = 290"
    by (simp_all add: coord_of_def floor_eq_iff)
  have m: "move_ball fast_ball = ?m"
    using fl by (simp add: move_ball_def fast_ball_def)
  have w: "wall_bounce demo_constants 0 0 ?m = ?m"
    by (simp add: wall_bounce_def rect_defs demo_constants_def)
  have pb: "paddle_bounce demo_paddle ?m = ?m"
    by (simp add: paddle_bounce_def colliderect_def demo_paddle_def)
  have lim: "limit_speed ?m = ?m\<lparr>ball_dx := 10, ball_dy := - 10\<rparr>"
    by (simp add: limit_speed_def fast_ball_def)
  have bc: "brick_collisions x y (?m\<lparr>ball_dx := 10, ball_dy := - 10\<rparr>) [brick_a] =
      (?m\<lparr>ball_dx := 10, ball_dy := - 10\<rparr>, [brick_a], 0, [])" for x y
    by (simp add: brick_collisions_def colliderect_def brick_a_def)
  have su: "speed_up (?m\<lparr>ball_dx := 10, ball_dy := - 10\<rparr>) = ?m"
    by (simp add: speed_up_def fast_ball_def)
  have "\<not> attached fast_ball"
    by (simp add: fast_ball_def)
  then show ?thesis
    by (simp add: ball_update_def m w pb lim bc su)
qed

text \<open>
  C3. In breakout the cap is applied before the growth, so an update leaves a velocity
  above the cap. A ball with \<^verbatim>\<open>max_speed\<close> 10 that flies at 10.005 is clamped to 10 and
  then sped up again: the update leaves both components at magnitude 10.005, above the
  ball's \<^verbatim>\<open>max_speed\<close>.
\<close>

theorem ball_speed_exceeds_cap:
  "max_speed (fst (snd (ball_update demo_constants 0 0 demo_paddle fast_ball [brick_a]))) = 10
   \<and> ball_dx (fst (snd (ball_update demo_constants 0 0 demo_paddle fast_ball [brick_a]))) = 10.005
   \<and> ball_dy (fst (snd (ball_update demo_constants 0 0 demo_paddle fast_ball [brick_a]))) = - 10.005
   \<and> max_speed (fst (snd (ball_update demo_constants 0 0 demo_paddle fast_ball [brick_a])))
        < \<bar>ball_dx (fst (snd (ball_update demo_constants 0 0 demo_paddle fast_ball [brick_a])))\<bar>
   \<and> max_speed (fst (snd (ball_update demo_constants 0 0 demo_paddle fast_ball [brick_a])))
        < \<bar>ball_dy (fst (snd (ball_update demo_constants 0 0 demo_paddle fast_ball [brick_a])))\<bar>"
  by (simp add: fast_ball_update) (simp add: fast_ball_def)

section \<open>Lives\<close>

lemma apply_powerup_lives:
  "snd (apply_powerup t (pad, l)) = (if t = ExtraLife then l + 1 else l)"
  by (cases t) (simp_all add: apply_powerup_def Let_def)

lemma powerups_loop_lives:
  "l \<le> snd (snd (powerups_loop K qs (pad, l)))
   \<and> snd (snd (powerups_loop K qs (pad, l)))
        \<le> l + int (length (filter (\<lambda>q. pu_type q = ExtraLife) qs))"
proof (induction qs arbitrary: pad l)
  case Nil
  then show ?case by simp
next
  case (Cons q qs)
  obtain pad' where ap: "apply_powerup (pu_type q) (pad, l) = (pad', if pu_type q = ExtraLife then l + 1 else l)"
    using apply_powerup_lives [of "pu_type q" pad l] by (metis prod.collapse)
  have ty: "pu_type (powerup_update q) = pu_type q"
    by (simp add: powerup_update_def)
  from Cons.IH [where pad=pad and l=l] Cons.IH [where pad=pad' and l="l + 1"] Cons.IH [where pad=pad' and l=l] ap ty
  show ?case
    by (auto simp: Let_def split: prod.splits)
qed

lemma powerups_loop_no_extra_life:
  assumes "\<forall>q \<in> set qs. pu_type q \<noteq> ExtraLife"
  shows "snd (snd (powerups_loop K qs (pad, l))) = l"
proof -
  from assms have "filter (\<lambda>q. pu_type q = ExtraLife) qs = []"
    by (simp add: filter_empty_conv)
  with powerups_loop_lives [where l=l and K=K and qs=qs and pad=pad] show ?thesis by simp
qed

lemma ball_update_broken_bound:
  "length (snd (fst (ball_update K u1 u2 p b bricks))) \<le> 1"
  by (cases "attached b")
    (simp_all add: ball_update_def brick_collisions_def Let_def split: option.splits prod.splits)

lemma spawn_powerups_type:
  "\<forall>q \<in> set (spawn_powerups roll t broken). pu_type q = t"
  by (auto simp: spawn_powerups_def new_powerup_def split: if_splits)

lemma lose_ball_lives:
  "bk_lives (lose_ball K c g) =
     (if rect_top (ball_rect (bk_ball g)) > SCREEN_HEIGHT K then bk_lives g - 1 else bk_lives g)"
  by (simp add: lose_ball_def Let_def)

lemma lose_ball_over:
  "rect_top (ball_rect (bk_ball g)) > SCREEN_HEIGHT K \<Longrightarrow> bk_lives g - 1 \<le> 0
     \<Longrightarrow> bk_game_over (lose_ball K c g) \<and> \<not> bk_game_active (lose_ball K c g)"
  by (simp add: lose_ball_def Let_def)

lemma complete_level_keeps:
  "bk_lives (complete_level K c colors g) = bk_lives g"
  "bk_game_over (complete_level K c colors g) = bk_game_over g"
  "bk_game_active (complete_level K c colors g) = bk_game_active g"
  "bk_file (complete_level K c colors g) = bk_file g"
  by (simp_all add: complete_level_def Let_def)

lemma breakout_lives:
  fixes K i g
  defines "g' \<equiv> breakout_tick K i g"
  shows "bk_lives g - 1 \<le> bk_lives g'"
    and "(\<forall>q \<in> set (bk_powerups g). pu_type q \<noteq> ExtraLife) \<Longrightarrow> in_spawn_type i \<noteq> ExtraLife
           \<Longrightarrow> bk_lives g' \<le> bk_lives g"
    and "0 < bk_lives g \<Longrightarrow> bk_lives g' \<le> 0 \<Longrightarrow> bk_game_over g' \<and> \<not> bk_game_active g'"
proof -
  define pad1 where "pad1 = paddle_update K (in_mouse_x i) (in_key_left i) (in_key_right i)
                   (bk_mouse_control g) (bk_pad g)"
  obtain pts broken ball1 bricks1 where
    upd: "ball_update K (in_wall_u1 i) (in_wall_u2 i) pad1 (bk_ball g) (bk_bricks g)
            = ((pts, broken), ball1, bricks1)"
    by (metis surj_pair)
  define spawned where "spawned = spawn_powerups (in_spawn_roll i) (in_spawn_type i) broken"
  obtain powerups2 pad2 lives2 where
    pl: "powerups_loop K (bk_powerups g @ spawned) (pad1, bk_lives g) = (powerups2, pad2, lives2)"
    by (metis surj_pair)
  define g2 where "g2 = g\<lparr>bk_pad := pad2, bk_ball := ball1, bk_bricks := bricks1,
      bk_powerups := powerups2, bk_score := bk_score g + pts, bk_lives := lives2\<rparr>"
  have tick: "g' = complete_level K (in_level_dir i) (in_colors i) (lose_ball K (in_lost_dir i) g2)"
    using upd pl
    by (simp add: g'_def breakout_tick_def pad1_def [symmetric] spawned_def [symmetric] g2_def)
  have g2: "bk_lives g2 = lives2" "bk_ball g2 = ball1"
    by (simp_all add: g2_def)
  have lives: "bk_lives g' = (if rect_top (ball_rect ball1) > SCREEN_HEIGHT K then lives2 - 1 else lives2)"
    by (simp add: tick complete_level_keeps lose_ball_lives g2)
  have over: "bk_game_over g' \<and> \<not> bk_game_active g'"
    if "rect_top (ball_rect ball1) > SCREEN_HEIGHT K" "lives2 - 1 \<le> 0"
    using lose_ball_over [of K g2 "in_lost_dir i"] that
    by (simp add: tick complete_level_keeps g2)
  have bounds: "bk_lives g \<le> lives2"
    using powerups_loop_lives [where l="bk_lives g" and K=K and qs="bk_powerups g @ spawned" and pad=pad1] pl
    by simp
  show "bk_lives g - 1 \<le> bk_lives g'"
    using lives bounds by simp
  show "bk_lives g' \<le> bk_lives g"
    if "\<forall>q \<in> set (bk_powerups g). pu_type q \<noteq> ExtraLife" "in_spawn_type i \<noteq> ExtraLife"
  proof -
    have "\<forall>q \<in> set (bk_powerups g @ spawned). pu_type q \<noteq> ExtraLife"
      using that spawn_powerups_type [of "in_spawn_roll i" "in_spawn_type i" broken]
      by (auto simp: spawned_def)
    then have "lives2 = bk_lives g"
      using powerups_loop_no_extra_life [where qs="bk_powerups g @ spawned" and K=K and pad=pad1 and l="bk_lives g"] pl
      by simp
    with lives show ?thesis by simp
  qed
  show "bk_game_over g' \<and> \<not> bk_game_active g'" if "0 < bk_lives g" "bk_lives g' \<le> 0"
  proof -
    from that lives bounds have "rect_top (ball_rect ball1) > SCREEN_HEIGHT K" "lives2 - 1 \<le> 0"
      by (auto split: if_splits)
    then show ?thesis by (rule over)
  qed
qed


lemma breakout_tick_steps:
  assumes "paddle_update K (in_mouse_x i) (in_key_left i) (in_key_right i) (bk_mouse_control g) (bk_pad g) = pad_a"
    and "ball_update K (in_wall_u1 i) (in_wall_u2 i) pad_a (bk_ball g) (bk_bricks g) = ((pts, broken), ball_a, bricks_a)"
    and "powerups_loop K (bk_powerups g @ spawn_powerups (in_spawn_roll i) (in_spawn_type i) broken)
           (pad_a, bk_lives g) = (powerups_b, pad_b, lives_b)"
  shows "breakout_tick K i g =
     complete_level K (in_level_dir i) (in_colors i)
       (lose_ball K (in_lost_dir i)
          (g\<lparr>bk_pad := pad_b, bk_ball := ball_a, bk_bricks := bricks_a, bk_powerups := powerups_b,
              bk_score := bk_score g + pts, bk_lives := lives_b\<rparr>))"
  using assms by (simp add: breakout_tick_def)

lemma player_update_lives: "lives (player_update K l r now pl) = lives pl"
  by (simp add: player_update_def Let_def)

lemma pec_invulnerable:
  "invulnerable (sh_player g) \<Longrightarrow>
     sh_player (player_enemy_collisions K now es g) = sh_player g
     \<and> sh_game_over (player_enemy_collisions K now es g) = sh_game_over g
     \<and> sh_game_active (player_enemy_collisions K now es g) = sh_game_active g"
  by (induction es arbitrary: g) (simp_all add: get_hit_def Let_def)

lemma pec_score: "sh_score (player_enemy_collisions K now es g) = sh_score g"
  by (induction es arbitrary: g) (simp_all add: get_hit_def Let_def)

lemma pec_wave: "sh_wave (player_enemy_collisions K now es g) = sh_wave g"
  by (induction es arbitrary: g) (simp_all add: get_hit_def Let_def)

lemma pec_enemies: "set (sh_enemies (player_enemy_collisions K now es g)) \<subseteq> set es"
  by (induction es arbitrary: g) (auto simp: get_hit_def Let_def)

lemma pec_lives:
  "lives (sh_player (player_enemy_collisions K now es g)) = lives (sh_player g)
   \<or> (lives (sh_player (player_enemy_collisions K now es g)) = lives (sh_player g) - 1
       \<and> (lives (sh_player g) - 1 \<le> 0 \<longrightarrow>
             sh_game_over (player_enemy_collisions K now es g)
             \<and> \<not> sh_game_active (player_enemy_collisions K now es g)))"
proof (induction es arbitrary: g)
  case Nil
  then show ?case by simp
next
  case (Cons e es)
  show ?case
  proof (cases "colliderect (pl_rect (sh_player g)) (enemy_rect e) \<and> \<not> invulnerable (sh_player g)")
    case True
    define pl' where "pl' = (sh_player g)\<lparr>lives := lives (sh_player g) - 1, invulnerable := True,
        invulnerable_timer := now\<rparr>"
    define g1 where "g1 = (if lives pl' \<le> 0
                       then g\<lparr>sh_player := pl', sh_game_active := False, sh_game_over := True,
                               sh_file := (if sh_score g > sh_high_score g
                                           then snd (add_score K ''Space Shooter'' (sh_score g) (sh_file g))
                                           else sh_file g)\<rparr>
                       else g\<lparr>sh_player := pl'\<rparr>)"
    have step: "player_enemy_collisions K now (e # es) g = player_enemy_collisions K now es g1"
      using True by (simp add: get_hit_def pl'_def g1_def)
    have inv: "invulnerable (sh_player g1)" "sh_player g1 = pl'"
      by (simp_all add: g1_def pl'_def)
    have fl: "lives pl' \<le> 0 \<longrightarrow> sh_game_over g1 \<and> \<not> sh_game_active g1"
      by (simp add: g1_def)
    have l: "lives pl' = lives (sh_player g) - 1"
      by (simp add: pl'_def)
    from pec_invulnerable [OF inv(1), of K now es] inv(2) fl l show ?thesis
      unfolding step by simp
  next
    case False
    then have "player_enemy_collisions K now (e # es) g =
        (player_enemy_collisions K now es g)\<lparr>sh_enemies := e # sh_enemies (player_enemy_collisions K now es g)\<rparr>"
      by (auto simp: get_hit_def Let_def)
    with Cons.IH [of g] show ?thesis by simp
  qed
qed

lemma shooter_tick_steps:
  fixes K i g enemies1
  defines "spawn \<equiv> in_current_time i - sh_last_enemy_time g > ENEMY_FREQUENCY K
                   \<and> int (length enemies1) < sh_enemy_count g"
  defines "wave_done \<equiv> in_current_time i - sh_wave_start_time g > 20000"
  assumes el: "enemies_loop K (sh_enemies g) (sh_score g) = (enemies1, score1)"
    and bec: "bullet_enemy_collisions (bullets_loop (sh_bullets g))
           (if spawn then enemies1 @ [in_new_enemy i] else enemies1)
           (if wave_done then score1 + (sh_wave g + 1) * 50 else score1) = (bullets3, enemies3, score3)"
  shows "shooter_tick K i g =
     player_enemy_collisions K (in_time_hit i) enemies3
       (g\<lparr>sh_player := player_update K (in_go_left i) (in_go_right i) (in_time_update i) (sh_player g),
          sh_bullets := bullets3, sh_enemies := enemies3, sh_score := score3,
          sh_wave := (if wave_done then sh_wave g + 1 else sh_wave g),
          sh_enemy_count := (if wave_done then sh_enemy_count g + 2 else sh_enemy_count g),
          sh_last_enemy_time := (if spawn then in_current_time i else sh_last_enemy_time g),
          sh_wave_start_time := (if wave_done then in_current_time i else sh_wave_start_time g)\<rparr>)"
proof (cases wave_done)
  case True
  with bec show ?thesis
    unfolding shooter_tick_def el Let_def prod.case
    by (simp add: spawn_def wave_done_def)
next
  case False
  with bec show ?thesis
    unfolding shooter_tick_def el Let_def prod.case
    by (simp add: spawn_def wave_done_def)
qed

lemma shooter_tick_pec:
  "\<exists>es g0. shooter_tick K i g = player_enemy_collisions K (in_time_hit i) es g0
     \<and> lives (sh_player g0) = lives (sh_player g)"
proof -
  obtain enemies1 score1 where el: "enemies_loop K (sh_enemies g) (sh_score g) = (enemies1, score1)"
    by (metis surj_pair)
  obtain bullets3 enemies3 score3 where
    "bullet_enemy_collisions (bullets_loop (sh_bullets g))
       (if in_current_time i - sh_last_enemy_time g > ENEMY_FREQUENCY K
           \<and> int (length enemies1) < sh_enemy_count g
        then enemies1 @ [in_new_enemy i] else enemies1)
       (if in_current_time i - sh_wave_start_time g > 20000
        then score1 + (sh_wave g + 1) * 50 else score1) = (bullets3, enemies3, score3)"
    by (metis surj_pair)
  from shooter_tick_steps [OF el this] show ?thesis
    by (intro exI conjI) (assumption, simp add: player_update_lives)
qed

lemma shooter_lives:
  fixes K i g
  defines "g' \<equiv> shooter_tick K i g"
  shows "lives (sh_player g') \<le> lives (sh_player g)"
    and "lives (sh_player g) - 1 \<le> lives (sh_player g')"
    and "0 < lives (sh_player g) \<Longrightarrow> lives (sh_player g') \<le> 0
           \<Longrightarrow> sh_game_over g' \<and> \<not> sh_game_active g'"
proof -
  obtain es g0 where t: "g' = player_enemy_collisions K (in_time_hit i) es g0"
    and l: "lives (sh_player g0) = lives (sh_player g)"
    using shooter_tick_pec [of K i g] unfolding g'_def by blast
  from pec_lives [of K "in_time_hit i" es g0] show "lives (sh_player g') \<le> lives (sh_player g)"
    unfolding t l by auto
  from pec_lives [of K "in_time_hit i" es g0] show "lives (sh_player g) - 1 \<le> lives (sh_player g')"
    unfolding t l by auto
  from pec_lives [of K "in_time_hit i" es g0]
  show "sh_game_over g' \<and> \<not> sh_game_active g'"
    if "0 < lives (sh_player g)" "lives (sh_player g') \<le> 0"
    using that unfolding t l by auto
qed

lemma breakout_tick_lives_eq:
  "bk_lives (breakout_tick K i g) =
     (let pad1 = paddle_update K (in_mouse_x i) (in_key_left i) (in_key_right i)
                   (bk_mouse_control g) (bk_pad g);
          upd = ball_update K (in_wall_u1 i) (in_wall_u2 i) pad1 (bk_ball g) (bk_bricks g);
          lives2 = snd (snd (powerups_loop K
                      (bk_powerups g @ spawn_powerups (in_spawn_roll i) (in_spawn_type i) (snd (fst upd)))
                      (pad1, bk_lives g)))
      in if rect_top (ball_rect (fst (snd upd))) > SCREEN_HEIGHT K then lives2 - 1 else lives2)"
proof -
  define pad1 where "pad1 = paddle_update K (in_mouse_x i) (in_key_left i) (in_key_right i)
                   (bk_mouse_control g) (bk_pad g)"
  obtain pts broken ball1 bricks1 where
    upd: "ball_update K (in_wall_u1 i) (in_wall_u2 i) pad1 (bk_ball g) (bk_bricks g)
            = ((pts, broken), ball1, bricks1)"
    by (metis surj_pair)
  obtain powerups2 pad2 lives2 where
    pl: "powerups_loop K (bk_powerups g @ spawn_powerups (in_spawn_roll i) (in_spawn_type i) broken)
           (pad1, bk_lives g) = (powerups2, pad2, lives2)"
    by (metis surj_pair)
  from breakout_tick_steps [OF pad1_def [symmetric] upd pl] upd pl show ?thesis
    by (simp add: pad1_def [symmetric] complete_level_keeps lose_ball_lives)
qed

lemma demo_paddle_follows_mouse:
  "paddle_update demo_constants 100 False False True demo_paddle = demo_paddle"
  by (simp add: paddle_update_def demo_paddle_def rect_defs demo_constants_def)

lemma resting_ball_update:
  "ball_update demo_constants 0 0 demo_paddle resting_ball [brick_a] = ((0, []), resting_ball, [brick_a])"
  by (simp add: ball_update_def resting_ball_def demo_paddle_def rect_defs)

lemma extra_life_caught:
  "powerups_loop demo_constants [extra_life_powerup] (demo_paddle, 3) = ([], demo_paddle, 4)"
  by (simp add: powerup_update_def extra_life_powerup_def rect_defs colliderect_def demo_paddle_def
      demo_constants_def apply_powerup_def)

lemma apply_powerup_paddle:
  "fst (apply_powerup t (pad, l)) = fst (apply_powerup t (pad, 0))"
  by (cases t) (simp_all add: apply_powerup_def Let_def)

lemma powerups_loop_caught:
  "snd (snd (powerups_loop K qs (pad, l))) =
     l + int (length (filter (\<lambda>q. pu_type q = ExtraLife) (caught_powerups K qs pad)))"
proof (induction qs arbitrary: pad l)
  case Nil
  then show ?case by simp
next
  case (Cons q qs)
  let ?q = "powerup_update q"
  show ?case
  proof (cases "rect_top (pu_rect ?q) > SCREEN_HEIGHT K")
    case True
    with Cons.IH [where pad=pad and l=l] show ?thesis
      by (simp add: Let_def)
  next
    case on_screen: False
    show ?thesis
    proof (cases "colliderect (pu_rect ?q) (paddle_rect pad)")
      case True
      let ?pad = "fst (apply_powerup (pu_type ?q) (pad, 0))"
      let ?l = "if pu_type ?q = ExtraLife then l + 1 else l"
      have ap: "apply_powerup (pu_type ?q) (pad, l) = (?pad, ?l)"
        using apply_powerup_lives [of "pu_type ?q" pad l] apply_powerup_paddle [of "pu_type ?q" pad l]
        by (metis prod.collapse)
      from on_screen True have "powerups_loop K (q # qs) (pad, l) = powerups_loop K qs (?pad, ?l)"
        by (simp add: Let_def ap)
      moreover from on_screen True
      have "caught_powerups K (q # qs) pad = ?q # caught_powerups K qs ?pad"
        by (simp add: Let_def)
      ultimately show ?thesis
        using Cons.IH [where pad="?pad" and l="?l"] by simp
    next
      case False
      with on_screen Cons.IH [where pad=pad and l=l] show ?thesis
        by (simp add: Let_def split_beta)
    qed
  qed
qed

text \<open>
  C6 (as amended). One breakout tick changes the lives counter by exactly one life gained
  for each extra-life power-up the paddle catches in that tick and one life lost if the
  ball has left the screen; so the counter drops by at most one, and it does not rise when
  no extra-life power-up is in play (none among the falling power-ups and none spawned).
  One shooter tick never raises the counter and lowers it by at most one (a hit). In both
  games, when a tick takes the counter from a positive value to zero or below, the session
  is in the game-over state after that tick.
\<close>

theorem lives_change_and_game_over:
  "bk_lives (breakout_tick K i g) =
     (let pad1 = paddle_update K (in_mouse_x i) (in_key_left i) (in_key_right i)
                   (bk_mouse_control g) (bk_pad g);
          upd = ball_update K (in_wall_u1 i) (in_wall_u2 i) pad1 (bk_ball g) (bk_bricks g);
          caught = caught_powerups K
                     (bk_powerups g @ spawn_powerups (in_spawn_roll i) (in_spawn_type i) (snd (fst upd)))
                     pad1
      in bk_lives g + int (length (filter (\<lambda>q. pu_type q = ExtraLife) caught))
           - (if rect_top (ball_rect (fst (snd upd))) > SCREEN_HEIGHT K then 1 else 0))
   \<and> bk_lives g - 1 \<le> bk_lives (breakout_tick K i g)
   \<and> ((\<forall>q \<in> set (bk_powerups g). pu_type q \<noteq> ExtraLife) \<and> in_spawn_type i \<noteq> ExtraLife
        \<longrightarrow> bk_lives (breakout_tick K i g) \<le> bk_lives g)
   \<and> (0 < bk_lives g \<and> bk_lives (breakout_tick K i g) \<le> 0
        \<longrightarrow> bk_game_over (breakout_tick K i g) \<and> \<not> bk_game_active (breakout_tick K i g))
   \<and> lives (sh_player (shooter_tick K si sg)) \<le> lives (sh_player sg)
   \<and> lives (sh_player sg) - 1 \<le> lives (sh_player (shooter_tick K si sg))
   \<and> (0 < lives (sh_player sg) \<and> lives (sh_player (shooter_tick K si sg)) \<le> 0
        \<longrightarrow> sh_game_over (shooter_tick K si sg) \<and> \<not> sh_game_active (shooter_tick K si sg))"
proof -
  have exact: "bk_lives (breakout_tick K i g) =
     (let pad1 = paddle_update K (in_mouse_x i) (in_key_left i) (in_key_right i)
                   (bk_mouse_control g) (bk_pad g);
          upd = ball_update K (in_wall_u1 i) (in_wall_u2 i) pad1 (bk_ball g) (bk_bricks g);
          caught = caught_powerups K
                     (bk_powerups g @ spawn_powerups (in_spawn_roll i) (in_spawn_type i) (snd (fst upd)))
                     pad1
      in bk_lives g + int (length (filter (\<lambda>q. pu_type q = ExtraLife) caught))
           - (if rect_top (ball_rect (fst (snd upd))) > SCREEN_HEIGHT K then 1 else 0))"
    unfolding breakout_tick_lives_eq Let_def powerups_loop_caught by simp
  from exact breakout_lives [where g=g and K=K and i=i] shooter_lives [where K=K and i=si and g=sg]
  show ?thesis
    by blast
qed

text \<open>
  C6 as stated fails in breakout: catching an extra-life power-up raises the lives of an
  active session from 3 to 4.
\<close>

theorem extra_life_raises_lives:
  "bk_game_active extra_life_session \<and> \<not> bk_paused extra_life_session
   \<and> bk_lives extra_life_session = 3
   \<and> bk_lives (breakout_tick demo_constants calm_input extra_life_session) = 4"
proof -
  have "breakout_tick demo_constants calm_input extra_life_session =
      complete_level demo_constants (in_level_dir calm_input) (in_colors calm_input)
        (lose_ball demo_constants (in_lost_dir calm_input)
          (extra_life_session\<lparr>bk_pad := demo_paddle, bk_ball := resting_ball, bk_bricks := [brick_a],
             bk_powerups := [], bk_score := bk_score extra_life_session + 0, bk_lives := 4\<rparr>))"
    by (rule breakout_tick_steps [where pad_a = demo_paddle and broken = "[]"])
      (simp_all add: calm_input_def extra_life_session_def demo_paddle_follows_mouse
        resting_ball_update spawn_powerups_def extra_life_caught del: powerups_loop.simps)
  then have "bk_lives (breakout_tick demo_constants calm_input extra_life_session) = 4"
    by (simp add: complete_level_keeps lose_ball_lives resting_ball_def rect_defs demo_constants_def)
  then show ?thesis
    by (simp add: extra_life_session_def)
qed


lemma ball_update_clear_flight:
  assumes "\<not> attached b"
    and "\<forall>bk \<in> set bricks. \<not> colliderect (ball_rect (move_ball b)) (brick_rect bk)"
  shows "ball_update K u1 u2 p b bricks =
     ((0, []), speed_up (limit_speed (paddle_bounce p (wall_bounce K u1 u2 (move_ball b)))), bricks)"
proof -
  have "brick_collisions x y (limit_speed (paddle_bounce p (wall_bounce K u1 u2 (move_ball b)))) bricks =
      (limit_speed (paddle_bounce p (wall_bounce K u1 u2 (move_ball b))), bricks, 0, [])" for x y
    using assms(2) by (intro brick_collisions_clear) (simp add: ball_rect_flight)
  with assms(1) show ?thesis
    by (simp add: ball_update_def)
qed

lemma sunk_ball_moved:
  "ball_rect (move_ball sunk_ball) = \<lparr>rect_x = 302, rect_y = 610, rect_w = 20, rect_h = 20\<rparr>"
  by (simp add: move_ball_def sunk_ball_def coord_of_def)

lemma last_life_lost:
  "bk_lives (breakout_tick demo_constants calm_input last_life_session) = 0"
proof -
  let ?ball = "speed_up (limit_speed (paddle_bounce demo_paddle
      (wall_bounce demo_constants 0 0 (move_ball sunk_ball))))"
  have clear: "\<forall>bk \<in> set [brick_a]. \<not> colliderect (ball_rect (move_ball sunk_ball)) (brick_rect bk)"
    by (simp add: sunk_ball_moved colliderect_def brick_a_def)
  have upd: "ball_update demo_constants 0 0 demo_paddle sunk_ball [brick_a] = ((0, []), ?ball, [brick_a])"
    by (rule ball_update_clear_flight [OF _ clear]) (simp add: sunk_ball_def)
  have "breakout_tick demo_constants calm_input last_life_session =
      complete_level demo_constants (in_level_dir calm_input) (in_colors calm_input)
        (lose_ball demo_constants (in_lost_dir calm_input)
          (last_life_session\<lparr>bk_pad := demo_paddle, bk_ball := ?ball, bk_bricks := [brick_a],
             bk_powerups := [], bk_score := bk_score last_life_session + 0, bk_lives := 1\<rparr>))"
    by (rule breakout_tick_steps [where pad_a = demo_paddle and broken = "[]"])
      (simp_all add: calm_input_def last_life_session_def demo_paddle_follows_mouse
        upd spawn_powerups_def)
  then show ?thesis
    by (simp add: complete_level_keeps lose_ball_lives ball_rect_phases sunk_ball_moved
        rect_defs demo_constants_def)
qed

lemma diving_enemy_moves:
  "enemies_loop demo_constants [diving_enemy] 30 =
     ([diving_enemy\<lparr>enemy_rect := \<lparr>rect_x = 390, rect_y = 480, rect_w = 40, rect_h = 40\<rparr>\<rparr>], 30)"
  by (simp add: escaped_def enemy_update_def diving_enemy_def coord_of_def rect_defs demo_constants_def)

lemma last_shooter_life_lost:
  "lives (sh_player (shooter_tick demo_constants quiet_input last_life_shooter)) = 0"
proof -
  let ?e = "diving_enemy\<lparr>enemy_rect := \<lparr>rect_x = 390, rect_y = 480, rect_w = 40, rect_h = 40\<rparr>\<rparr>"
  have pu: "player_update demo_constants False False 500 demo_player = demo_player"
    by (simp add: player_update_def demo_player_def rect_defs demo_constants_def)
  have el: "enemies_loop demo_constants (sh_enemies last_life_shooter) (sh_score last_life_shooter)
      = ([?e], 30)"
    by (simp add: last_life_shooter_def diving_enemy_moves del: enemies_loop.simps)
  have bec: "bullet_enemy_collisions (bullets_loop (sh_bullets last_life_shooter))
      (if in_current_time quiet_input - sh_last_enemy_time last_life_shooter > ENEMY_FREQUENCY demo_constants
          \<and> int (length [?e]) < sh_enemy_count last_life_shooter
       then [?e] @ [in_new_enemy quiet_input] else [?e])
      (if in_current_time quiet_input - sh_wave_start_time last_life_shooter > 20000
       then 30 + (sh_wave last_life_shooter + 1) * 50 else 30) = ([], [?e], 30)"
    by (simp add: last_life_shooter_def quiet_input_def demo_constants_def)
  show ?thesis
    unfolding shooter_tick_steps [OF el bec]
    by (simp add: quiet_input_def last_life_shooter_def pu get_hit_def)
      (simp add: demo_player_def colliderect_def diving_enemy_def)
qed

lemma extra_life_is_caught:
  "caught_powerups demo_constants [extra_life_powerup] demo_paddle = [powerup_update extra_life_powerup]"
  by (simp add: powerup_update_def extra_life_powerup_def rect_defs colliderect_def demo_paddle_def
      demo_constants_def)

text \<open>
  The last life lost, in breakout and in the shooter, and the life gained from the
  extra-life power-up.
\<close>

theorem lives_change_and_game_over_witness:
  "bk_powerups last_life_session = [] \<and> in_spawn_type calm_input \<noteq> ExtraLife
   \<and> 0 < bk_lives last_life_session
   \<and> bk_lives (breakout_tick demo_constants calm_input last_life_session) = 0
   \<and> bk_game_over (breakout_tick demo_constants calm_input last_life_session)
   \<and> \<not> bk_game_active (breakout_tick demo_constants calm_input last_life_session)
   \<and> bk_lives (breakout_tick demo_constants calm_input extra_life_session)
        = bk_lives extra_life_session + 1
   \<and> 0 < lives (sh_player last_life_shooter)
   \<and> lives (sh_player (shooter_tick demo_constants quiet_input last_life_shooter)) = 0
   \<and> sh_game_over (shooter_tick demo_constants quiet_input last_life_shooter)
   \<and> \<not> sh_game_active (shooter_tick demo_constants quiet_input last_life_shooter)"
proof -
  have h: "bk_powerups last_life_session = []" "in_spawn_type calm_input \<noteq> ExtraLife"
    "0 < bk_lives last_life_session" "0 < lives (sh_player last_life_shooter)"
    by (simp_all add: last_life_session_def calm_input_def last_life_shooter_def demo_player_def)
  have pad: "paddle_update demo_constants (in_mouse_x calm_input) (in_key_left calm_input)
      (in_key_right calm_input) (bk_mouse_control extra_life_session) (bk_pad extra_life_session)
      = demo_paddle"
    by (simp add: calm_input_def extra_life_session_def demo_paddle_follows_mouse)
  have upd: "ball_update demo_constants (in_wall_u1 calm_input) (in_wall_u2 calm_input) demo_paddle
      (bk_ball extra_life_session) (bk_bricks extra_life_session) = ((0, []), resting_ball, [brick_a])"
    by (simp add: calm_input_def extra_life_session_def resting_ball_update)
  have caught: "caught_powerups demo_constants
      (bk_powerups extra_life_session @ spawn_powerups (in_spawn_roll calm_input) (in_spawn_type calm_input) [])
      demo_paddle = [powerup_update extra_life_powerup]"
    using extra_life_is_caught
    by (simp add: extra_life_session_def spawn_powerups_def del: caught_powerups.simps)
  have on_screen: "\<not> rect_top (ball_rect resting_ball) > SCREEN_HEIGHT demo_constants"
    by (simp add: resting_ball_def rect_defs demo_constants_def)
  have gain: "bk_lives (breakout_tick demo_constants calm_input extra_life_session)
      = bk_lives extra_life_session + 1"
    using lives_change_and_game_over
      [where g=extra_life_session and K=demo_constants and i=calm_input, THEN conjunct1]
    unfolding Let_def pad upd fst_conv snd_conv caught
    using on_screen by (simp add: powerup_update_def extra_life_powerup_def)
  from lives_change_and_game_over
    [where g=last_life_session and K=demo_constants and i=calm_input and si=quiet_input
       and sg=last_life_shooter]
    h last_life_lost last_shooter_life_lost gain
  show ?thesis by simp
qed

section \<open>Scores\<close>

lemma enemy_update_points: "enemy_points (enemy_update K e) = enemy_points e"
  by (simp add: enemy_update_def Let_def)

lemma enemies_loop_score:
  "0 \<le> sc \<Longrightarrow>
     snd (enemies_loop K es sc) = max 0 (sc - int (length (filter (escaped K) es)))"
proof (induction es arbitrary: sc)
  case Nil
  then show ?case by simp
next
  case (Cons e es)
  show ?case
  proof (cases "escaped K e")
    case True
    with Cons.prems Cons.IH [of "sc - 1"] Cons.IH [of sc] show ?thesis
      by (cases "sc > 0") (auto simp: max_def)
  next
    case False
    with Cons.prems Cons.IH [of sc] show ?thesis
      by (simp add: split_beta)
  qed
qed

lemma enemies_loop_enemies:
  "fst (enemies_loop K es sc) = map (enemy_update K) (filter (\<lambda>e. \<not> escaped K e) es)"
  by (induction es arbitrary: sc) (simp_all add: split_beta)

lemma bullet_enemy_collisions_score:
  "\<forall>e \<in> set es. 0 \<le> enemy_points e \<Longrightarrow>
     sc \<le> snd (snd (bullet_enemy_collisions bls es sc))
     \<and> set (fst (snd (bullet_enemy_collisions bls es sc))) \<subseteq> set es"
proof (induction bls arbitrary: es sc)
  case Nil
  then show ?case by simp
next
  case (Cons bl bls)
  let ?hit = "\<lambda>e. colliderect (bullet_rect bl) (enemy_rect e)"
  let ?pts = "sum_list (map enemy_points (filter ?hit es))"
  let ?es' = "filter (\<lambda>e. \<not> ?hit e) es"
  have pts: "0 \<le> ?pts"
    using Cons.prems by (intro sum_list_nonneg) auto
  have "\<forall>e \<in> set ?es'. 0 \<le> enemy_points e"
    using Cons.prems by simp
  from Cons.IH [OF this, of "sc + ?pts"] pts show ?case
    by (auto simp: enemy_scan_all split_beta)
qed

lemma shooter_score:
  fixes K i g
  defines "g' \<equiv> shooter_tick K i g"
  assumes sc: "0 \<le> sh_score g" and wave: "0 \<le> sh_wave g"
    and pts: "\<forall>e \<in> set (sh_enemies g). 0 \<le> enemy_points e"
    and new: "0 \<le> enemy_points (in_new_enemy i)"
  shows "0 \<le> sh_score g'"
    and "sh_score g - int (length (filter (escaped K) (sh_enemies g))) \<le> sh_score g'"
    and "0 \<le> sh_wave g'"
    and "\<forall>e \<in> set (sh_enemies g'). 0 \<le> enemy_points e"
proof -
  obtain enemies1 score1 where el: "enemies_loop K (sh_enemies g) (sh_score g) = (enemies1, score1)"
    by (metis surj_pair)
  let ?spawn = "in_current_time i - sh_last_enemy_time g > ENEMY_FREQUENCY K
           \<and> int (length enemies1) < sh_enemy_count g"
  let ?wave_done = "in_current_time i - sh_wave_start_time g > 20000"
  let ?enemies2 = "if ?spawn then enemies1 @ [in_new_enemy i] else enemies1"
  let ?score2 = "if ?wave_done then score1 + (sh_wave g + 1) * 50 else score1"
  obtain bullets3 enemies3 score3 where
    bec: "bullet_enemy_collisions (bullets_loop (sh_bullets g)) ?enemies2 ?score2
            = (bullets3, enemies3, score3)"
    by (metis surj_pair)
  note tick = shooter_tick_steps [OF el bec]
  have s1: "score1 = max 0 (sh_score g - int (length (filter (escaped K) (sh_enemies g))))"
    using enemies_loop_score [OF sc, of K "sh_enemies g"] el by simp
  have e1: "enemies1 = map (enemy_update K) (filter (\<lambda>e. \<not> escaped K e) (sh_enemies g))"
    using enemies_loop_enemies [of K "sh_enemies g" "sh_score g"] el by simp
  have p2: "\<forall>e \<in> set ?enemies2. 0 \<le> enemy_points e"
    using pts new by (auto simp: e1 enemy_update_points)
  have s2: "score1 \<le> ?score2"
    using wave by simp
  from bullet_enemy_collisions_score [OF p2, of ?score2 "bullets_loop (sh_bullets g)"] bec
  have s3: "?score2 \<le> score3" and e3: "set enemies3 \<subseteq> set ?enemies2"
    by simp_all
  have score': "sh_score g' = score3"
    unfolding g'_def tick by (simp add: pec_score)
  from s1 s2 s3 show "0 \<le> sh_score g'"
    unfolding score' by linarith
  from s1 s2 s3 show "sh_score g - int (length (filter (escaped K) (sh_enemies g))) \<le> sh_score g'"
    unfolding score' by linarith
  show "0 \<le> sh_wave g'"
    unfolding g'_def tick using wave by (simp add: pec_wave)
  have "set (sh_enemies g') \<subseteq> set enemies3"
    unfolding g'_def tick by (rule pec_enemies)
  with e3 p2 show "\<forall>e \<in> set (sh_enemies g'). 0 \<le> enemy_points e"
    by blast
qed


lemma create_bricks_points: "\<forall>bk \<in> set (create_bricks K colors). 0 \<le> brick_points bk"
  by (auto simp: create_bricks_def Let_def)

lemma brick_scan_points:
  assumes "\<forall>bk \<in> set bricks. 0 \<le> brick_points bk"
    and "brick_scan r bricks = Some (b', broken, pts, bricks')"
  shows "0 \<le> pts \<and> (\<forall>bk \<in> set bricks'. 0 \<le> brick_points bk)"
proof -
  let ?miss = "\<lambda>bk. \<not> colliderect r (brick_rect bk)"
  from assms(2) obtain bk rest where dw: "dropWhile ?miss bricks = bk # rest"
    and b': "pts = brick_points bk"
    and br: "bricks' = takeWhile ?miss bricks @ (if strength bk \<le> 1 then rest else snd (hit bk) # rest)"
    unfolding brick_scan_first by (auto split: list.splits)
  have "set (takeWhile ?miss bricks) \<subseteq> set bricks"
    by (auto dest: set_takeWhileD)
  moreover have "set (bk # rest) \<subseteq> set bricks"
    unfolding dw [symmetric] by (auto dest: set_dropWhileD)
  ultimately show ?thesis
    using assms(1) unfolding b' br by (auto simp: hit_snd_sel)
qed

lemma ball_update_points:
  assumes "\<forall>bk \<in> set bricks. 0 \<le> brick_points bk"
  shows "0 \<le> fst (fst (ball_update K u1 u2 p b bricks))
     \<and> (\<forall>bk \<in> set (snd (snd (ball_update K u1 u2 p b bricks))). 0 \<le> brick_points bk)"
proof (cases "attached b")
  case True
  with assms show ?thesis by (simp add: ball_update_def)
next
  case False
  show ?thesis
  proof (cases "brick_scan (ball_rect (move_ball b)) bricks")
    case None
    with assms show ?thesis
      unfolding ball_update_flight [OF False] by simp
  next
    case (Some t)
    obtain b' broken pts bricks' where t: "t = (b', broken, pts, bricks')"
      by (metis prod_cases4)
    from brick_scan_points [OF assms Some [unfolded t]] show ?thesis
      unfolding ball_update_flight [OF False] Some t by simp
  qed
qed

lemma lose_ball_keeps:
  "bk_score (lose_ball K c g) = bk_score g" "bk_level (lose_ball K c g) = bk_level g"
  "bk_bricks (lose_ball K c g) = bk_bricks g"
  by (simp_all add: lose_ball_def Let_def)

lemma complete_level_score:
  assumes "0 \<le> bk_level g" "\<forall>bk \<in> set (bk_bricks g). 0 \<le> brick_points bk"
  shows "bk_score g \<le> bk_score (complete_level K c colors g)"
    and "0 \<le> bk_level (complete_level K c colors g)"
    and "\<forall>bk \<in> set (bk_bricks (complete_level K c colors g)). 0 \<le> brick_points bk"
  using assms create_bricks_points [of K colors]
  by (simp_all add: complete_level_def Let_def)

lemma breakout_score:
  fixes K i g
  defines "g' \<equiv> breakout_tick K i g"
  assumes level: "0 \<le> bk_level g" and pts: "\<forall>bk \<in> set (bk_bricks g). 0 \<le> brick_points bk"
  shows "bk_score g \<le> bk_score g'" and "0 \<le> bk_level g'"
    and "\<forall>bk \<in> set (bk_bricks g'). 0 \<le> brick_points bk"
proof -
  define pad_a where "pad_a = paddle_update K (in_mouse_x i) (in_key_left i) (in_key_right i)
                   (bk_mouse_control g) (bk_pad g)"
  obtain sc broken ball_a bricks_a where
    upd: "ball_update K (in_wall_u1 i) (in_wall_u2 i) pad_a (bk_ball g) (bk_bricks g)
            = ((sc, broken), ball_a, bricks_a)"
    by (metis surj_pair)
  obtain powerups_b pad_b lives_b where
    pl: "powerups_loop K (bk_powerups g @ spawn_powerups (in_spawn_roll i) (in_spawn_type i) broken)
           (pad_a, bk_lives g) = (powerups_b, pad_b, lives_b)"
    by (metis surj_pair)
  define g2 where "g2 = lose_ball K (in_lost_dir i)
      (g\<lparr>bk_pad := pad_b, bk_ball := ball_a, bk_bricks := bricks_a,
          bk_powerups := powerups_b, bk_score := bk_score g + sc, bk_lives := lives_b\<rparr>)"
  have tick: "g' = complete_level K (in_level_dir i) (in_colors i) g2"
    unfolding g'_def g2_def by (rule breakout_tick_steps [OF pad_a_def [symmetric] upd pl])
  from ball_update_points [OF pts, of K "in_wall_u1 i" "in_wall_u2 i" pad_a "bk_ball g"] upd
  have sc: "0 \<le> sc" and bricks: "\<forall>bk \<in> set bricks_a. 0 \<le> brick_points bk"
    by simp_all
  have g2: "bk_score g2 = bk_score g + sc" "bk_level g2 = bk_level g" "bk_bricks g2 = bricks_a"
    by (simp_all add: g2_def lose_ball_keeps)
  have l2: "0 \<le> bk_level g2" and b2: "\<forall>bk \<in> set (bk_bricks g2). 0 \<le> brick_points bk"
    using level bricks by (simp_all add: g2)
  from complete_level_score(1) [OF l2 b2, of K "in_level_dir i" "in_colors i"] sc
  show "bk_score g \<le> bk_score g'"
    unfolding tick by (simp add: g2)
  show "0 \<le> bk_level g'"
    unfolding tick by (rule complete_level_score(2) [OF l2 b2])
  show "\<forall>bk \<in> set (bk_bricks g'). 0 \<le> brick_points bk"
    unfolding tick by (rule complete_level_score(3) [OF l2 b2])
qed

lemma snake_update_score: "snake_update K s = Inr s' \<Longrightarrow> score s' = score s"
  by (auto simp: snake_update_def Let_def split: if_splits list.splits prod.splits)

lemma snake_step_score:
  assumes "snake_step K draws g = Inr g'"
  shows "score (sn_snake g) \<le> score (sn_snake g')"
proof -
  from assms obtain s1 where u: "snake_update K (sn_snake g) = Inr s1"
    by (auto simp: snake_step_def split: sum.splits)
  have s1: "score s1 = score (sn_snake g)"
    using u by (rule snake_update_score)
  from assms show ?thesis
    unfolding snake_step_def u
    by (auto simp: Let_def grow_def s1 split: list.splits if_splits sum.splits)
qed

lemma pong_scores:
  "pp_score l \<le> pp_score (fst (snd (snd (pong_ball_update K l r b))))
   \<and> pp_score r \<le> pp_score (snd (snd (snd (pong_ball_update K l r b))))"
  by (simp add: pong_ball_update_def handle_paddle_collision_def Let_def)

lemma pipes_loop_score: "fl_score g \<le> fl_score (pipes_loop K qs g)"
proof (induction qs arbitrary: g)
  case Nil
  then show ?case by simp
next
  case (Cons q qs)
  let ?q1 = "pipe_update q"
  let ?pass = "\<not> passed ?q1 \<and> rect_right (top_rect ?q1) < rect_left (bird_rect (fl_bird g))"
  let ?q2 = "if ?pass then ?q1\<lparr>passed := True\<rparr> else ?q1"
  let ?g1 = "if ?pass then g\<lparr>fl_score := fl_score g + 1\<rparr> else g"
  let ?g2 = "if check_collision ?q2 (bird_rect (fl_bird ?g1))
             then ?g1\<lparr>fl_game_active := False, fl_game_over := True,
                     fl_file := (if fl_score ?g1 > fl_high_score ?g1
                                 then snd (add_score K ''Flappy Bird'' (fl_score ?g1) (fl_file ?g1))
                                 else fl_file ?g1)\<rparr>
             else ?g1"
  have "fl_score g \<le> fl_score ?g2"
    by simp
  also have "\<dots> \<le> fl_score (pipes_loop K qs ?g2)"
    by (rule Cons.IH)
  also have "\<dots> = fl_score (pipes_loop K (q # qs) g)"
    by (simp add: Let_def)
  finally show ?case .
qed

lemma flappy_score: "fl_score g \<le> fl_score (flappy_tick K now new_pipe g)"
proof -
  let ?g1 = "g\<lparr>fl_bird := bird_update K (fl_bird g),
      fl_pipes := (if now - fl_last_pipe_time g > PIPE_FREQUENCY K then fl_pipes g @ [new_pipe] else fl_pipes g),
      fl_last_pipe_time := (if now - fl_last_pipe_time g > PIPE_FREQUENCY K then now else fl_last_pipe_time g)\<rparr>"
  have "fl_score g = fl_score ?g1" by simp
  also have "\<dots> \<le> fl_score (pipes_loop K (fl_pipes ?g1) ?g1)"
    by (rule pipes_loop_score)
  also have "\<dots> = fl_score (flappy_tick K now new_pipe g)"
    by (simp add: flappy_tick_def Let_def)
  finally show ?thesis .
qed


text \<open>
  C9. One tick of an active session never lowers the score, except in the shooter, where
  each enemy that escapes off screen costs one point while the score is positive. Starting
  from a non-negative score, the shooter's enemy loop leaves exactly
  \<open>max 0 (score - escaped)\<close>, so the score floors at zero; the whole shooter tick leaves a
  non-negative score that is at least the old score minus the number of escaped enemies
  (hence at least the old score when none escapes). Breakout, snake (10 per food), pong and
  flappy only add. The side conditions (enemy and brick point values, wave and level
  non-negative) hold at session start and are kept by every tick.
\<close>

theorem score_floor_and_growth:
  "(0 \<le> sh_score sg \<and> 0 \<le> sh_wave sg \<and> (\<forall>e \<in> set (sh_enemies sg). 0 \<le> enemy_points e)
      \<and> 0 \<le> enemy_points (in_new_enemy si)
    \<longrightarrow> 0 \<le> sh_score (shooter_tick K si sg)
        \<and> sh_score sg - int (length (filter (escaped K) (sh_enemies sg))) \<le> sh_score (shooter_tick K si sg)
        \<and> 0 \<le> sh_wave (shooter_tick K si sg)
        \<and> (\<forall>e \<in> set (sh_enemies (shooter_tick K si sg)). 0 \<le> enemy_points e))
   \<and> (0 \<le> sc \<longrightarrow> snd (enemies_loop K es sc) = max 0 (sc - int (length (filter (escaped K) es))))
   \<and> (0 \<le> bk_level bg \<and> (\<forall>bk \<in> set (bk_bricks bg). 0 \<le> brick_points bk)
    \<longrightarrow> bk_score bg \<le> bk_score (breakout_tick K bi bg)
        \<and> 0 \<le> bk_level (breakout_tick K bi bg)
        \<and> (\<forall>bk \<in> set (bk_bricks (breakout_tick K bi bg)). 0 \<le> brick_points bk))
   \<and> score (grow s) = score s + 10
   \<and> (snake_step K draws ng = Inr ng' \<longrightarrow> score (sn_snake ng) \<le> score (sn_snake ng'))
   \<and> pp_score l \<le> pp_score (fst (snd (snd (pong_ball_update K l r b))))
   \<and> pp_score r \<le> pp_score (snd (snd (snd (pong_ball_update K l r b))))
   \<and> fl_score fg \<le> fl_score (flappy_tick K now new_pipe fg)"
proof -
  have shooter: "0 \<le> sh_score sg \<and> 0 \<le> sh_wave sg \<and> (\<forall>e \<in> set (sh_enemies sg). 0 \<le> enemy_points e)
      \<and> 0 \<le> enemy_points (in_new_enemy si)
    \<longrightarrow> 0 \<le> sh_score (shooter_tick K si sg)
        \<and> sh_score sg - int (length (filter (escaped K) (sh_enemies sg))) \<le> sh_score (shooter_tick K si sg)
        \<and> 0 \<le> sh_wave (shooter_tick K si sg)
        \<and> (\<forall>e \<in> set (sh_enemies (shooter_tick K si sg)). 0 \<le> enemy_points e)"
    using shooter_score [where K=K and i=si and g=sg] by blast
  have penalty: "0 \<le> sc \<longrightarrow> snd (enemies_loop K es sc) = max 0 (sc - int (length (filter (escaped K) es)))"
    using enemies_loop_score [where K=K and es=es and sc=sc] by blast
  have breakout: "0 \<le> bk_level bg \<and> (\<forall>bk \<in> set (bk_bricks bg). 0 \<le> brick_points bk)
    \<longrightarrow> bk_score bg \<le> bk_score (breakout_tick K bi bg)
        \<and> 0 \<le> bk_level (breakout_tick K bi bg)
        \<and> (\<forall>bk \<in> set (bk_bricks (breakout_tick K bi bg)). 0 \<le> brick_points bk)"
    using breakout_score [where K=K and i=bi and g=bg] by blast
  have food: "score (grow s) = score s + 10"
    by (simp add: grow_def)
  have snake: "snake_step K draws ng = Inr ng' \<longrightarrow> score (sn_snake ng) \<le> score (sn_snake ng')"
    using snake_step_score [where K=K and draws=draws and g=ng and g'=ng'] by blast
  note pong = pong_scores [where K=K and l=l and r=r and b=b]
  note flappy = flappy_score [where K=K and now=now and new_pipe=new_pipe and g=fg]
  from shooter penalty breakout food snake pong flappy show ?thesis
    by (intro conjI) (assumption | erule conjunct1 | erule conjunct2)+
qed

lemma fleeing_enemy_escapes: "escaped demo_constants fleeing_enemy"
  by (simp add: escaped_def enemy_update_def fleeing_enemy_def coord_of_def rect_defs demo_constants_def)

lemma hungry_snake_eats:
  "snake_step demo_constants [(100, 100)] hungry_session =
     Inr (hungry_session\<lparr>sn_snake := hungry_snake\<lparr>positions := [(30, 20), (20, 20), (20, 30)],
                                                 grow_to := 4, score := 10\<rparr>,
                          sn_food := (100, 100)\<rparr>)"
  by (simp add: snake_step_def snake_update_def hungry_session_def hungry_snake_def
      demo_constants_def grow_def)

text \<open>
  Sample ticks: a shooter tick without escapes, the miss penalty at scores 30 and 1, a
  breakout tick, and a snake that eats.
\<close>

theorem score_floor_and_growth_witness:
  "0 \<le> sh_score last_life_shooter \<and> 0 \<le> sh_wave last_life_shooter
   \<and> sh_enemies last_life_shooter = [diving_enemy] \<and> 0 \<le> enemy_points diving_enemy
   \<and> in_new_enemy quiet_input = diving_enemy
   \<and> 0 \<le> sh_score (shooter_tick demo_constants quiet_input last_life_shooter)
   \<and> sh_score last_life_shooter \<le> sh_score (shooter_tick demo_constants quiet_input last_life_shooter)
   \<and> escaped demo_constants fleeing_enemy
   \<and> snd (enemies_loop demo_constants [fleeing_enemy] 30) = 29
   \<and> snd (enemies_loop demo_constants [fleeing_enemy, fleeing_enemy] 1) = 0
   \<and> 0 \<le> bk_level extra_life_session \<and> bk_bricks extra_life_session = [brick_a]
   \<and> 0 \<le> brick_points brick_a
   \<and> bk_score extra_life_session \<le> bk_score (breakout_tick demo_constants calm_input extra_life_session)
   \<and> snake_step demo_constants [(100, 100)] hungry_session =
        Inr (hungry_session\<lparr>sn_snake := hungry_snake\<lparr>positions := [(30, 20), (20, 20), (20, 30)],
                                                 grow_to := 4, score := 10\<rparr>,
                          sn_food := (100, 100)\<rparr>)
   \<and> score (sn_snake hungry_session)
        \<le> score (sn_snake (hungry_session\<lparr>sn_snake := hungry_snake\<lparr>positions := [(30, 20), (20, 20), (20, 30)],
                                                 grow_to := 4, score := 10\<rparr>,
                          sn_food := (100, 100)\<rparr>))
   \<and> score (sn_snake hungry_session) = 0
   \<and> score (sn_snake (hungry_session\<lparr>sn_snake := hungry_snake\<lparr>positions := [(30, 20), (20, 20), (20, 30)],
                                                 grow_to := 4, score := 10\<rparr>,
                          sn_food := (100, 100)\<rparr>)) = 10"
proof -
  have sh: "0 \<le> sh_score last_life_shooter" "0 \<le> sh_wave last_life_shooter"
    "sh_enemies last_life_shooter = [diving_enemy]" "0 \<le> enemy_points diving_enemy"
    "in_new_enemy quiet_input = diving_enemy" "\<not> escaped demo_constants diving_enemy"
    by (simp_all add: last_life_shooter_def diving_enemy_def quiet_input_def escaped_def
        enemy_update_def coord_of_def rect_defs demo_constants_def)
  have bk: "0 \<le> bk_level extra_life_session" "bk_bricks extra_life_session = [brick_a]"
    "0 \<le> brick_points brick_a"
    by (simp_all add: extra_life_session_def brick_a_def)
  have sn: "score (sn_snake hungry_session) = 0"
    by (simp add: hungry_session_def hungry_snake_def)
  let ?ng = "hungry_session\<lparr>sn_snake := hungry_snake\<lparr>positions := [(30, 20), (20, 20), (20, 30)],
                                                 grow_to := 4, score := 10\<rparr>,
                          sn_food := (100, 100)\<rparr>"
  note t = score_floor_and_growth [where K=demo_constants and si=quiet_input and sg=last_life_shooter
      and bi=calm_input and bg=extra_life_session and draws="[(100, 100)]" and ng=hungry_session
      and ng'="?ng"]
  have pre: "0 \<le> sh_score last_life_shooter \<and> 0 \<le> sh_wave last_life_shooter
      \<and> (\<forall>e \<in> set (sh_enemies last_life_shooter). 0 \<le> enemy_points e)
      \<and> 0 \<le> enemy_points (in_new_enemy quiet_input)"
    using sh by simp
  have esc: "filter (escaped demo_constants) (sh_enemies last_life_shooter) = []"
    using sh by simp
  from t [where sc=30 and es="[fleeing_enemy]", THEN conjunct1, rule_format, OF pre]
  have c1: "0 \<le> sh_score (shooter_tick demo_constants quiet_input last_life_shooter)"
    and c2: "sh_score last_life_shooter \<le> sh_score (shooter_tick demo_constants quiet_input last_life_shooter)"
    unfolding esc by simp_all
  from t [where sc=30 and es="[fleeing_enemy]", THEN conjunct2, THEN conjunct1] fleeing_enemy_escapes
  have c3: "snd (enemies_loop demo_constants [fleeing_enemy] 30) = 29"
    by (simp del: enemies_loop.simps)
  from t [where sc=1 and es="[fleeing_enemy, fleeing_enemy]", THEN conjunct2, THEN conjunct1]
    fleeing_enemy_escapes
  have c4: "snd (enemies_loop demo_constants [fleeing_enemy, fleeing_enemy] 1) = 0"
    by (simp del: enemies_loop.simps)
  have pre_bk: "0 \<le> bk_level extra_life_session
      \<and> (\<forall>bk \<in> set (bk_bricks extra_life_session). 0 \<le> brick_points bk)"
    using bk by simp
  from t [where sc=30 and es="[fleeing_enemy]", THEN conjunct2, THEN conjunct2, THEN conjunct1,
      rule_format, OF pre_bk]
  have c5: "bk_score extra_life_session \<le> bk_score (breakout_tick demo_constants calm_input extra_life_session)"
    by simp
  have c6: "score (sn_snake ?ng) = 10"
    by simp
  from t [where sc=30 and es="[fleeing_enemy]", THEN conjunct2, THEN conjunct2, THEN conjunct2,
      THEN conjunct2, THEN conjunct1, rule_format, OF hungry_snake_eats]
  have c7: "score (sn_snake hungry_session) \<le> score (sn_snake ?ng)" .
  from sh(1-5) c1 c2 fleeing_enemy_escapes c3 c4 bk c5 hungry_snake_eats c7 sn c6 show ?thesis
    by (intro conjI)
qed


end
